theory Spec2Isabelle
  imports Complex_Main "HOL-Library.Word" "HOL-Library.Signed_Division" "HOL-Library.Monad_Syntax"
    "HOL-Library.Log_Nat"
begin

unbundle bit_operations_syntax

section \<open>Floating point\<close>

text \<open>
  The file embedded here is \<^verbatim>\<open>firmware/src/MightyBoard/Motherboard/StepperAxis.cc\<close>.

  A finite floating-point value is the real number it denotes. Every floating-point
  operation is the exact operation followed by \<open>fl\<close>, the rounding to the nearest value
  of the format, ties to the even mantissa: 24 significant bits and a least quantum of
  \<open>2 ^ -149\<close> for \<^verbatim>\<open>float\<close>, 53 bits and \<open>2 ^ -1074\<close> for a \<^verbatim>\<open>double\<close> of 64 bits.
  The exponent is not bounded above: a result of \<open>2 ^ 128\<close> or more stands for the
  infinity of \<^verbatim>\<open>float\<close>.
\<close>

datatype ftype = Binary32 | Binary64

fun mant_dig :: "ftype \<Rightarrow> nat" where
  "mant_dig Binary32 = 24"
| "mant_dig Binary64 = 53"

fun min_quantum :: "ftype \<Rightarrow> int" where
  "min_quantum Binary32 = - 149"
| "min_quantum Binary64 = - 1074"

definition pow2 :: "int \<Rightarrow> real" where
  "pow2 e = (if 0 \<le> e then 2 ^ nat e else 1 / 2 ^ nat (- e))"

definition round_even :: "real \<Rightarrow> int" where
  \<comment> \<open>The nearest integer, the even one of two that are equally near.\<close>
  "round_even x =
     (let n = \<lfloor>x\<rfloor>; d = x - of_int n
      in if d < 1 / 2 then n else if 1 / 2 < d then n + 1 else if even n then n else n + 1)"

definition ilog2 :: "real \<Rightarrow> int" where
  \<comment> \<open>For a positive \<open>x\<close>, the exponent \<open>e\<close> with \<open>2 ^ e \<le> x < 2 ^ (e + 1)\<close>.\<close>
  "ilog2 x = (if 1 \<le> x then bitlen \<lfloor>x\<rfloor> - 1 else - bitlen (\<lceil>1 / x\<rceil> - 1))"

definition fl :: "ftype \<Rightarrow> real \<Rightarrow> real" where
  "fl t x =
     (if x = 0 then 0
      else let q = max (ilog2 \<bar>x\<bar> - (int (mant_dig t) - 1)) (min_quantum t)
           in of_int (round_even (x / pow2 q)) * pow2 q)"

definition fmul :: "real \<Rightarrow> real \<Rightarrow> real" where
  \<comment> \<open>The product of two \<^verbatim>\<open>float\<close>s.\<close>
  "fmul x y = fl Binary32 (x * y)"

definition fdiv :: "real \<Rightarrow> real \<Rightarrow> real" where
  \<comment> \<open>The quotient of two \<^verbatim>\<open>float\<close>s, for a divisor that is not zero.\<close>
  "fdiv x y = fl Binary32 (x / y)"

definition double_to_float :: "real \<Rightarrow> real" where
  \<comment> \<open>A \<^verbatim>\<open>double\<close> stored into a \<^verbatim>\<open>float\<close>.\<close>
  "double_to_float x = fl Binary32 x"

definition float_trunc :: "real \<Rightarrow> int" where
  \<comment> \<open>A float converted to an integer type loses its fractional part (towards zero).\<close>
  "float_trunc r = (if r < 0 then \<lceil>r\<rceil> else \<lfloor>r\<rfloor>)"

section \<open>Integers\<close>

text \<open>
  Signed C integers are modelled by \<^typ>\<open>int\<close>. Signed arithmetic that leaves the type
  wraps around, as the two's complement code of the targets does, and so does the
  narrowing of an \<^verbatim>\<open>int64_t\<close> to an \<^verbatim>\<open>int32_t\<close>. A division by zero is an error:
  the model returns \<^const>\<open>None\<close>. Unsigned values read from the EEPROM are words.
\<close>

type_synonym uint8_t = "8 word"
type_synonym uint32_t = "32 word"

definition in_int32 :: "int \<Rightarrow> bool" where
  "in_int32 v \<longleftrightarrow> - (2 ^ 31) \<le> v \<and> v < 2 ^ 31"

definition in_int64 :: "int \<Rightarrow> bool" where
  "in_int64 v \<longleftrightarrow> - (2 ^ 63) \<le> v \<and> v < 2 ^ 63"

definition int32_wrap :: "int \<Rightarrow> int" where
  \<comment> \<open>The result of an \<^verbatim>\<open>int32_t\<close> operation, reduced modulo \<open>2 ^ 32\<close>.\<close>
  "int32_wrap v = signed_take_bit 31 v"

definition int64_wrap :: "int \<Rightarrow> int" where
  \<comment> \<open>The result of an \<^verbatim>\<open>int64_t\<close> operation, reduced modulo \<open>2 ^ 64\<close>.\<close>
  "int64_wrap v = signed_take_bit 63 v"

definition int64_to_int32 :: "int \<Rightarrow> int" where
  \<comment> \<open>\<^verbatim>\<open>(int32_t)x\<close> for an \<^verbatim>\<open>int64_t x\<close>: the compiler reduces modulo \<open>2 ^ 32\<close>.\<close>
  "int64_to_int32 v = signed_take_bit 31 v"

definition uint32_to_int32 :: "uint32_t \<Rightarrow> int" where
  \<comment> \<open>\<^verbatim>\<open>(int32_t)x\<close> for a \<^verbatim>\<open>uint32_t x\<close>: the same 32 bits read as two's complement.\<close>
  "uint32_to_int32 w = sint w"

definition uint32_to_float :: "uint32_t \<Rightarrow> real" where
  \<comment> \<open>\<^verbatim>\<open>(float)x\<close> for a \<^verbatim>\<open>uint32_t x\<close>: rounded when \<open>x\<close> has more than 24 bits.\<close>
  "uint32_to_float w = fl Binary32 (real (unat w))"

definition int32_to_float :: "int \<Rightarrow> real" where
  \<comment> \<open>\<^verbatim>\<open>(float)x\<close> for an \<^verbatim>\<open>int32_t x\<close>.\<close>
  "int32_to_float k = fl Binary32 (real_of_int k)"

definition checked_div :: "int \<Rightarrow> int \<Rightarrow> int option" where
  \<comment> \<open>The division of C: towards zero, and an error for the divisor zero.\<close>
  "checked_div a d = (if d = 0 then None else Some (a sdiv d))"

section \<open>Compile-time configuration and persisted calibration\<close>

text \<open>
  Modelled from the spec: the axis indices and the axis count are declared in a header that
  is not among the sources. The spec names the axes X, Y, Z, A, B in this order, and
  the five rows of \<^verbatim>\<open>stepperAxisPorts\<close> are initialised in the same order.
\<close>

definition STEPPER_COUNT :: nat where
  \<comment> \<open>Modelled from the spec: the compile-time axis count, for the axes X, Y, Z, A, B.\<close>
  "STEPPER_COUNT = 5"

definition X_AXIS :: nat where
  \<comment> \<open>Modelled from the spec: the index of the first axis of the fixed set.\<close>
  "X_AXIS = 0"

definition Y_AXIS :: nat where
  \<comment> \<open>Modelled from the spec: the index of the second axis of the fixed set.\<close>
  "Y_AXIS = 1"

definition Z_AXIS :: nat where
  \<comment> \<open>Modelled from the spec: the index of the third axis of the fixed set.\<close>
  "Z_AXIS = 2"

definition A_AXIS :: nat where
  \<comment> \<open>Modelled from the spec: the index of the first extruder axis, fourth of the set.\<close>
  "A_AXIS = 3"

definition B_AXIS :: nat where
  \<comment> \<open>Modelled from the spec: the index of the second extruder axis, fifth of the set.\<close>
  "B_AXIS = 4"

record StepperIOPort =
  port :: nat
  iport :: nat
  pin :: nat
  ddr :: nat

record StepperAxisPorts =
  step :: StepperIOPort
  dir :: StepperIOPort
  enable :: StepperIOPort
  minimum :: StepperIOPort
  maximum :: StepperIOPort

text \<open>
  What the build fixes and the sources do not show is a parameter of the model:
  \<^item> the preprocessor switches \<^verbatim>\<open>PSTOP_SUPPORT\<close> and \<^verbatim>\<open>Z_HOME_MAX\<close> and the number
    of extruders;
  \<^item> the format of \<^verbatim>\<open>double\<close>, which has 32 bits on the AVR target and 64 bits on a
    desktop build;
  \<^item> what the conversion of a float to \<^verbatim>\<open>int32_t\<close> and to \<^verbatim>\<open>int64_t\<close> returns
    for a value that the type cannot hold, which C leaves undefined;
  \<^item> the conversions \<^verbatim>\<open>FTOFP\<close> and \<^verbatim>\<open>FPTOF\<close> between a floating-point number and
    the planner's number type (whose values are taken as reals, and what \<^verbatim>\<open>FPTOF\<close>
    returns as a \<^verbatim>\<open>float\<close>);
  \<^item> the port \<^verbatim>\<open>X_STEPPER_MIN\<close> and the test \<^verbatim>\<open>STEPPER_IOPORT_NULL\<close>.
\<close>

record board =
  PSTOP_SUPPORT :: bool
  Z_HOME_MAX :: bool
  EXTRUDERS :: nat
  DOUBLE :: ftype
  FIX_OVERFLOW32 :: "real \<Rightarrow> int"
  FIX_OVERFLOW64 :: "real \<Rightarrow> int"
  FTOFP :: "real \<Rightarrow> real"
  FPTOF :: "real \<Rightarrow> real"
  X_STEPPER_MIN :: StepperIOPort
  STEPPER_IOPORT_NULL :: "StepperIOPort \<Rightarrow> bool"

definition dmul :: "board \<Rightarrow> real \<Rightarrow> real \<Rightarrow> real" where
  \<comment> \<open>The product of two \<^verbatim>\<open>double\<close>s.\<close>
  "dmul b x y = fl (DOUBLE b) (x * y)"

definition ddiv :: "board \<Rightarrow> real \<Rightarrow> real \<Rightarrow> real" where
  \<comment> \<open>The quotient of two \<^verbatim>\<open>double\<close>s, for a divisor that is not zero.\<close>
  "ddiv b x y = fl (DOUBLE b) (x / y)"

definition float_to_int32 :: "board \<Rightarrow> real \<Rightarrow> int" where
  \<comment> \<open>\<^verbatim>\<open>(int32_t)x\<close> for a floating-point \<^verbatim>\<open>x\<close>.\<close>
  "float_to_int32 b r =
     (if in_int32 (float_trunc r) then float_trunc r else int32_wrap (FIX_OVERFLOW32 b r))"

definition float_to_int64 :: "board \<Rightarrow> real \<Rightarrow> int" where
  \<comment> \<open>\<^verbatim>\<open>(int64_t)x\<close> for a floating-point \<^verbatim>\<open>x\<close>.\<close>
  "float_to_int64 b r =
     (if in_int64 (float_trunc r) then float_trunc r else int64_wrap (FIX_OVERFLOW64 b r))"

text \<open>
  The persisted calibration source. Each field is the value that \<^verbatim>\<open>eeprom::getEeprom8\<close>
  or \<^verbatim>\<open>eeprom::getEeprom32\<close> returns for that offset (for the per-axis tables, at
  \<^verbatim>\<open>offset + i * sizeof(uint32_t)\<close>): the stored value, or the compiled default.
\<close>

record eeprom =
  AXIS_INVERSION :: uint8_t
  ENDSTOP_INVERSION :: uint8_t
  PSTOP_ENABLE :: uint8_t
  AXIS_STEPS_PER_MM :: "nat \<Rightarrow> uint32_t"
  AXIS_MAX_FEEDRATES :: "nat \<Rightarrow> uint32_t"
  AXIS_LENGTHS :: "nat \<Rightarrow> uint32_t"
  AXIS_HOME_POSITIONS_STEPS :: "nat \<Rightarrow> uint32_t"

section \<open>The state\<close>

text \<open>
  Modelled from the spec: the declarations of the two structs are in \<^verbatim>\<open>StepperAxis.hh\<close>,
  which is not among the sources. The records have the fields that \<^verbatim>\<open>StepperAxis.cc\<close>
  assigns, typed as the data model of the spec types them: booleans, signed integers for
  the limits, the interval and the counters, a real for the steps per mm and for the
  maximum feedrate.
\<close>

record dda_t =
  eAxis :: bool
  counter :: int
  direction :: int
  stepperDir :: bool
  master :: bool
  master_steps :: int
  steps_completed :: int
  steps :: int

record StepperAxis =
  invert_endstop :: bool
  invert_axis :: bool
  steps_per_mm :: real
  max_feedrate :: real
  min_interval :: int
  min_axis_steps_limit :: int
  max_axis_steps_limit :: int
  hasHomed :: bool
  hasDefinePosition :: bool
  dda :: dda_t

datatype io_op =
    SetDirection StepperIOPort bool
  | Write StepperIOPort bool
  | PstopSetDirection bool
  | PstopSetValue bool

text \<open>
  The file-scope variables. An array of fixed size is a function of the index, of which the
  code reads and writes the indices below the size only. The writes to the pins are kept as
  a trace, in the order of the calls.
\<close>

record machine =
  stepperAxisPorts :: "nat \<Rightarrow> StepperAxisPorts"
  stepperAxis :: "nat \<Rightarrow> StepperAxis"
  dda_position :: "nat \<Rightarrow> int"
  axis_homing :: "nat \<Rightarrow> bool"
  e_steps :: "nat \<Rightarrow> int"
  axesEnabled :: uint8_t
  axesHardwareEnabled :: uint8_t
  pstop_enable :: uint8_t
  io_trace :: "io_op list"

section \<open>stepperAxisInit\<close>

definition load_pstop :: "board \<Rightarrow> eeprom \<Rightarrow> machine \<Rightarrow> machine" where
  \<comment> \<open>Lines 66 to 80: the \<^verbatim>\<open>PSTOP_SUPPORT\<close> part of loading the defaults.\<close>
  "load_pstop b ee st =
     (if PSTOP_SUPPORT b then
        (let st = st\<lparr>pstop_enable := PSTOP_ENABLE ee\<rparr>;
             xMin = X_STEPPER_MIN b;
             p = stepperAxisPorts st X_AXIS
         in if pstop_enable st \<noteq> 1 then
              st\<lparr>stepperAxisPorts := (stepperAxisPorts st)(X_AXIS :=
                   p\<lparr>minimum := (minimum p)\<lparr>port := port xMin, iport := iport xMin,
                                              pin := pin xMin, ddr := ddr xMin\<rparr>\<rparr>)\<rparr>
            else
              st\<lparr>stepperAxisPorts := (stepperAxisPorts st)(X_AXIS :=
                   p\<lparr>minimum := (minimum p)\<lparr>port := 0, iport := 0, pin := 0, ddr := 0\<rparr>\<rparr>)\<rparr>)
      else st)"

definition axis_limits :: "board \<Rightarrow> eeprom \<Rightarrow> nat \<Rightarrow> int \<Rightarrow> StepperAxis \<Rightarrow> StepperAxis" where
  \<comment> \<open>Lines 109 to 138: the \<^verbatim>\<open>switch\<close> on the axis; no case for an index above \<^verbatim>\<open>B_AXIS\<close>.\<close>
  "axis_limits b ee i len a =
     (if i = X_AXIS \<or> i = Y_AXIS then
        (let a = a\<lparr>max_axis_steps_limit := len sdiv 2\<rparr>
         in a\<lparr>min_axis_steps_limit := int32_wrap (- max_axis_steps_limit a)\<rparr>)
      else if i = Z_AXIS then
        (let a = (if \<not> Z_HOME_MAX b
                  then a\<lparr>max_axis_steps_limit :=
                         int32_wrap (len - uint32_to_int32 (AXIS_HOME_POSITIONS_STEPS ee i))\<rparr>
                  else a\<lparr>max_axis_steps_limit :=
                         uint32_to_int32 (AXIS_HOME_POSITIONS_STEPS ee i)\<rparr>)
         in a\<lparr>min_axis_steps_limit := 0\<rparr>)
      else if i = A_AXIS \<or> i = B_AXIS then
        (let a = a\<lparr>max_axis_steps_limit := len\<rparr>
         in a\<lparr>min_axis_steps_limit := int32_wrap (- len)\<rparr>)
      else a)"

definition hard_reset_axis ::
  "board \<Rightarrow> eeprom \<Rightarrow> uint8_t \<Rightarrow> uint8_t \<Rightarrow> nat \<Rightarrow> StepperAxis \<Rightarrow> StepperAxis option" where
  \<comment> \<open>Lines 88 to 138: the values of axis \<open>i\<close> loaded from the EEPROM.\<close>
  "hard_reset_axis b ee axes_invert endstops_invert i a = do {
     let endstops_present = (endstops_invert AND push_bit 7 1 \<noteq> 0);
     let a = a\<lparr>invert_endstop := \<not> endstops_present \<or> (endstops_invert AND push_bit i 1 \<noteq> 0)\<rparr>;
     let a = a\<lparr>invert_axis := (axes_invert AND push_bit i 1 \<noteq> 0)\<rparr>;
     let a = a\<lparr>steps_per_mm :=
               double_to_float (ddiv b (uint32_to_float (AXIS_STEPS_PER_MM ee i)) 1000000)\<rparr>;
     let a = a\<lparr>max_feedrate := FTOFP b (ddiv b (uint32_to_float (AXIS_MAX_FEEDRATES ee i)) 60)\<rparr>;
     let f = float_to_int32 b (fmul (steps_per_mm a) (FPTOF b (max_feedrate a)));
     m \<leftarrow> (if f \<noteq> 0 then checked_div 1000000 f else Some 500);
     let a = a\<lparr>min_interval := m\<rparr>;
     let len = float_to_int32 b (fmul (uint32_to_float (AXIS_LENGTHS ee i)) (steps_per_mm a));
     Some (axis_limits b ee i len a)
   }"

definition setup_pins :: "board \<Rightarrow> nat \<Rightarrow> machine \<Rightarrow> machine" where
  \<comment> \<open>Lines 141 to 158.\<close>
  "setup_pins b i st =
     (let p = stepperAxisPorts st i;
          inv = invert_endstop (stepperAxis st i)
      in st\<lparr>io_trace := io_trace st
           @ [SetDirection (dir p) True, SetDirection (step p) True,
              Write (enable p) True, SetDirection (enable p) True]
           @ (if \<not> STEPPER_IOPORT_NULL b (maximum p)
              then [SetDirection (maximum p) False, Write (maximum p) inv] else [])
           @ (if \<not> STEPPER_IOPORT_NULL b (minimum p)
              then [SetDirection (minimum p) False, Write (minimum p) inv] else [])\<rparr>)"

definition reset_dda :: "nat \<Rightarrow> StepperAxis \<Rightarrow> StepperAxis" where
  \<comment> \<open>Lines 169 to 176.\<close>
  "reset_dda i a =
     a\<lparr>dda := (dda a)\<lparr>eAxis := (if i \<ge> A_AXIS then True else False),
                       counter := 0,
                       direction := 1,
                       stepperDir := False,
                       master := False,
                       master_steps := 0,
                       steps_completed := 0,
                       steps := 0\<rparr>\<rparr>"

definition axis_body ::
  "board \<Rightarrow> eeprom \<Rightarrow> bool \<Rightarrow> uint8_t \<Rightarrow> uint8_t \<Rightarrow> nat \<Rightarrow> machine \<Rightarrow> machine option" where
  \<comment> \<open>Lines 85 to 176: one round of the loop over the axes.\<close>
  "axis_body b ee hard_reset axes_invert endstops_invert i st = do {
     st \<leftarrow> (if hard_reset then do {
              a \<leftarrow> hard_reset_axis b ee axes_invert endstops_invert i (stepperAxis st i);
              let st = st\<lparr>stepperAxis := (stepperAxis st)(i := a)\<rparr>;
              let st = setup_pins b i st;
              let st = st\<lparr>dda_position := (dda_position st)(i := 0)\<rparr>;
              Some (st\<lparr>stepperAxis := (stepperAxis st)(i :=
                      (stepperAxis st i)\<lparr>hasHomed := False, hasDefinePosition := False\<rparr>)\<rparr>)
            }
            else Some st);
     let st = st\<lparr>axis_homing := (axis_homing st)(i := False)\<rparr>;
     Some (st\<lparr>stepperAxis := (stepperAxis st)(i := reset_dda i (stepperAxis st i))\<rparr>)
   }"

function axis_loop ::
  "board \<Rightarrow> eeprom \<Rightarrow> bool \<Rightarrow> uint8_t \<Rightarrow> uint8_t \<Rightarrow> nat \<Rightarrow> machine \<Rightarrow> machine option" where
  "axis_loop b ee hard_reset axes_invert endstops_invert i st =
     (if i < STEPPER_COUNT then
        (case axis_body b ee hard_reset axes_invert endstops_invert i st of
           None \<Rightarrow> None
         | Some st' \<Rightarrow> axis_loop b ee hard_reset axes_invert endstops_invert (i + 1) st')
      else Some st)"
  by pat_completeness auto
termination
  by (relation "measure (\<lambda>(b, ee, hard_reset, axes_invert, endstops_invert, i, st).
        STEPPER_COUNT - i)") auto

declare axis_loop.simps [simp del]

definition reset_enabled :: "board \<Rightarrow> machine \<Rightarrow> machine" where
  \<comment> \<open>Lines 180 to 188.\<close>
  "reset_enabled b st =
     (let st = st\<lparr>axesEnabled := 0\<rparr>;
          st = st\<lparr>axesHardwareEnabled := 0\<rparr>
      in if PSTOP_SUPPORT b \<and> pstop_enable st = 1
         then st\<lparr>io_trace := io_trace st @ [PstopSetDirection False, PstopSetValue False]\<rparr>
         else st)"

function e_steps_loop :: "board \<Rightarrow> nat \<Rightarrow> machine \<Rightarrow> machine" where
  "e_steps_loop b i st =
     (if i < EXTRUDERS b
      then e_steps_loop b (i + 1) (st\<lparr>e_steps := (e_steps st)(i := 0)\<rparr>)
      else st)"
  by pat_completeness auto
termination
  by (relation "measure (\<lambda>(b, i, st). EXTRUDERS b - i)") auto

declare e_steps_loop.simps [simp del]

definition stepperAxisInit :: "board \<Rightarrow> eeprom \<Rightarrow> bool \<Rightarrow> machine \<Rightarrow> machine option" where
  "stepperAxisInit b ee hard_reset st = do {
     let axes_invert = (if hard_reset then AXIS_INVERSION ee else 0);
     let endstops_invert = (if hard_reset then ENDSTOP_INVERSION ee else 0);
     let st = (if hard_reset then load_pstop b ee st else st);
     st \<leftarrow> axis_loop b ee hard_reset axes_invert endstops_invert 0 st;
     let st = (if hard_reset then reset_enabled b st else st);
     Some (e_steps_loop b 0 st)
   }"

section \<open>The conversions\<close>

definition stepperAxisStepsPerMM :: "nat \<Rightarrow> machine \<Rightarrow> real option" where
  "stepperAxisStepsPerMM axis st =
     (if axis < STEPPER_COUNT then Some (steps_per_mm (stepperAxis st axis)) else None)"

definition stepperAxisStepsToMM :: "int \<Rightarrow> nat \<Rightarrow> machine \<Rightarrow> real option" where
  \<comment> \<open>No result where the axis does not exist or the quotient is not a finite float
      (a division by zero, a quotient of \<open>2 ^ 128\<close> or more).\<close>
  "stepperAxisStepsToMM stps axis st =
     (if axis < STEPPER_COUNT \<and> steps_per_mm (stepperAxis st axis) \<noteq> 0
         \<and> \<bar>fdiv (int32_to_float stps) (steps_per_mm (stepperAxis st axis))\<bar> < 2 ^ 128
      then Some (fdiv (int32_to_float stps) (steps_per_mm (stepperAxis st axis))) else None)"

definition stepperAxisMMToSteps :: "board \<Rightarrow> real \<Rightarrow> nat \<Rightarrow> machine \<Rightarrow> int option" where
  \<comment> \<open>No result where the axis does not exist.\<close>
  "stepperAxisMMToSteps b mm axis st =
     (if axis < STEPPER_COUNT then
        (let intmm = float_to_int64 b (dmul b mm 1000);
             ret = int64_wrap (intmm * float_to_int64 b (steps_per_mm (stepperAxis st axis)));
             ret = ret sdiv 1000
         in Some (int64_to_int32 ret))
      else None)"

section \<open>Concrete configurations\<close>

text \<open>
  The AVR board: built without \<^verbatim>\<open>PSTOP_SUPPORT\<close> and without \<^verbatim>\<open>Z_HOME_MAX\<close>, with
  two extruders, a \<^verbatim>\<open>double\<close> of 32 bits, a planner that computes in \<^verbatim>\<open>float\<close>, and
  conversions to integers that return the most negative value where the value does not
  fit. The desktop board differs in its \<^verbatim>\<open>double\<close> of 64 bits. The EEPROM contents carry
  the values of the spec's examples: 88 steps per mm and 200 mm for X and Y, 400 steps per
  mm and 150 mm for Z.
\<close>

definition board_ex :: board where
  "board_ex = \<lparr>PSTOP_SUPPORT = False, Z_HOME_MAX = False, EXTRUDERS = 2,
     DOUBLE = Binary32,
     FIX_OVERFLOW32 = (\<lambda>r. - (2 ^ 31)), FIX_OVERFLOW64 = (\<lambda>r. - (2 ^ 63)),
     FTOFP = (\<lambda>x. fl Binary32 x), FPTOF = (\<lambda>x. x),
     X_STEPPER_MIN = \<lparr>port = 1, iport = 2, pin = 3, ddr = 4\<rparr>,
     STEPPER_IOPORT_NULL = (\<lambda>p. port p = 0)\<rparr>"

definition board_desktop :: board where
  "board_desktop = board_ex\<lparr>DOUBLE := Binary64\<rparr>"

definition ee_ex :: eeprom where
  "ee_ex = \<lparr>AXIS_INVERSION = 23, ENDSTOP_INVERSION = 133, PSTOP_ENABLE = 0,
     AXIS_STEPS_PER_MM = (\<lambda>i. if i = 2 then 400000000 else if i < 2 then 88000000 else 96275000),
     AXIS_MAX_FEEDRATES = (\<lambda>i. if i = 2 then 1170 else if i < 2 then 18000 else 1600),
     AXIS_LENGTHS = (\<lambda>i. if i = 2 then 150 else if i < 2 then 200 else 100000),
     AXIS_HOME_POSITIONS_STEPS = (\<lambda>i. 0)\<rparr>"

definition ee_no_endstops :: eeprom where
  \<comment> \<open>The same with bit 7 of the endstop mask clear.\<close>
  "ee_no_endstops = ee_ex\<lparr>ENDSTOP_INVERSION := 5\<rparr>"

definition ee_fraction :: eeprom where
  \<comment> \<open>1.75 steps per mm and a length of 1 mm on every axis.\<close>
  "ee_fraction = ee_ex\<lparr>AXIS_STEPS_PER_MM := (\<lambda>i. 1750000), AXIS_LENGTHS := (\<lambda>i. 1)\<rparr>"

definition ee_half :: eeprom where
  \<comment> \<open>2.5 steps per mm and a length of 100 mm on every axis.\<close>
  "ee_half = ee_ex\<lparr>AXIS_STEPS_PER_MM := (\<lambda>i. 2500000), AXIS_LENGTHS := (\<lambda>i. 100)\<rparr>"

definition ee_stalled :: eeprom where
  \<comment> \<open>A maximum feedrate of zero on every axis.\<close>
  "ee_stalled = ee_ex\<lparr>AXIS_MAX_FEEDRATES := (\<lambda>i. 0)\<rparr>"

definition ee_slow :: eeprom where
  \<comment> \<open>A maximum feedrate of 141 mm per minute on every axis.\<close>
  "ee_slow = ee_ex\<lparr>AXIS_MAX_FEEDRATES := (\<lambda>i. 141)\<rparr>"

definition ee_fast :: eeprom where
  \<comment> \<open>A maximum feedrate of 4000000000 mm per minute on every axis.\<close>
  "ee_fast = ee_ex\<lparr>AXIS_MAX_FEEDRATES := (\<lambda>i. 4000000000)\<rparr>"

definition ee_belt :: eeprom where
  \<comment> \<open>94.139704 steps per mm and a length of 816 mm on every axis.\<close>
  "ee_belt = ee_ex\<lparr>AXIS_STEPS_PER_MM := (\<lambda>i. 94139704), AXIS_LENGTHS := (\<lambda>i. 816)\<rparr>"

definition ee_long :: eeprom where
  \<comment> \<open>1000 steps per mm and a length of 3000000 mm on every axis: 3000000000 steps.\<close>
  "ee_long = ee_ex\<lparr>AXIS_STEPS_PER_MM := (\<lambda>i. 1000000000), AXIS_LENGTHS := (\<lambda>i. 3000000)\<rparr>"

definition axis_zero :: StepperAxis where
  "axis_zero = \<lparr>invert_endstop = False, invert_axis = False, steps_per_mm = 0, max_feedrate = 0,
     min_interval = 0, min_axis_steps_limit = 0, max_axis_steps_limit = 0,
     hasHomed = False, hasDefinePosition = False,
     dda = \<lparr>eAxis = False, counter = 0, direction = 0, stepperDir = False, master = False,
            master_steps = 0, steps_completed = 0, steps = 0\<rparr>\<rparr>"

definition port_zero :: StepperIOPort where
  "port_zero = \<lparr>port = 0, iport = 0, pin = 0, ddr = 0\<rparr>"

definition machine_zero :: machine where
  \<comment> \<open>The variables as the C runtime zeroes them at startup.\<close>
  "machine_zero = \<lparr>stepperAxisPorts = (\<lambda>i. \<lparr>step = port_zero, dir = port_zero, enable = port_zero,
        minimum = port_zero, maximum = port_zero\<rparr>),
     stepperAxis = (\<lambda>i. axis_zero), dda_position = (\<lambda>i. 0), axis_homing = (\<lambda>i. False),
     e_steps = (\<lambda>i. 0), axesEnabled = 0, axesHardwareEnabled = 0, pstop_enable = 0,
     io_trace = []\<rparr>"

definition axis_busy :: StepperAxis where
  "axis_busy = \<lparr>invert_endstop = True, invert_axis = True, steps_per_mm = 88, max_feedrate = 300,
     min_interval = 37, min_axis_steps_limit = - 8800, max_axis_steps_limit = 8800,
     hasHomed = True, hasDefinePosition = True,
     dda = \<lparr>eAxis = False, counter = 5, direction = - 1, stepperDir = True, master = True,
            master_steps = 9, steps_completed = 4, steps = 9\<rparr>\<rparr>"

definition machine_busy :: machine where
  \<comment> \<open>A machine in the middle of a homing move.\<close>
  "machine_busy = machine_zero\<lparr>stepperAxis := (\<lambda>i. axis_busy), dda_position := (\<lambda>i. 1234),
     axis_homing := (\<lambda>i. True), e_steps := (\<lambda>i. 3), axesEnabled := 31,
     axesHardwareEnabled := 31\<rparr>"

definition machine_100 :: machine where
  \<comment> \<open>Every axis at 100 steps per mm.\<close>
  "machine_100 = machine_zero\<lparr>stepperAxis := (\<lambda>i. axis_zero\<lparr>steps_per_mm := 100\<rparr>)\<rparr>"

section \<open>Auxiliary notions\<close>

definition hard_axis_final :: "nat \<Rightarrow> StepperAxis \<Rightarrow> StepperAxis" where
  \<comment> \<open>What lines 163 to 176 make of the record that lines 88 to 138 have filled.\<close>
  "hard_axis_final i a = reset_dda i (a\<lparr>hasHomed := False, hasDefinePosition := False\<rparr>)"

definition loaded_steps_per_mm :: "board \<Rightarrow> eeprom \<Rightarrow> nat \<Rightarrow> real" where
  \<comment> \<open>The right-hand side of lines 95 and 96.\<close>
  "loaded_steps_per_mm b ee i =
     double_to_float (ddiv b (uint32_to_float (AXIS_STEPS_PER_MM ee i)) 1000000)"

definition loaded_max_feedrate :: "board \<Rightarrow> eeprom \<Rightarrow> nat \<Rightarrow> real" where
  \<comment> \<open>The right-hand side of lines 98 and 99.\<close>
  "loaded_max_feedrate b ee i = FTOFP b (ddiv b (uint32_to_float (AXIS_MAX_FEEDRATES ee i)) 60)"

definition loaded_f :: "board \<Rightarrow> eeprom \<Rightarrow> nat \<Rightarrow> int" where
  \<comment> \<open>The right-hand side of line 103.\<close>
  "loaded_f b ee i =
     float_to_int32 b (fmul (loaded_steps_per_mm b ee i) (FPTOF b (loaded_max_feedrate b ee i)))"

definition loaded_length :: "board \<Rightarrow> eeprom \<Rightarrow> nat \<Rightarrow> int" where
  \<comment> \<open>The right-hand side of lines 107 and 108.\<close>
  "loaded_length b ee i =
     float_to_int32 b (fmul (uint32_to_float (AXIS_LENGTHS ee i)) (loaded_steps_per_mm b ee i))"

definition mmToSteps_spec :: "real \<Rightarrow> real \<Rightarrow> int" where
  \<comment> \<open>The conversion in the words of the spec, on real numbers and unbounded integers:
      scale by 1000, truncate, multiply by the truncated steps per mm, divide by 1000 with
      truncation.\<close>
  "mmToSteps_spec mm spm = (float_trunc (mm * 1000) * float_trunc spm) sdiv 1000"

definition mmToSteps_double :: "board \<Rightarrow> real \<Rightarrow> real \<Rightarrow> int" where
  \<comment> \<open>The same with the product by 1000 rounded as the \<^verbatim>\<open>double\<close> of the board rounds it.\<close>
  "mmToSteps_double b mm spm = (float_trunc (dmul b mm 1000) * float_trunc spm) sdiv 1000"

section \<open>The loops\<close>

lemma axis_body_soft:
  "axis_body b ee False ai ei i st =
     Some (st\<lparr>axis_homing := (axis_homing st)(i := False),
              stepperAxis := (stepperAxis st)(i := reset_dda i (stepperAxis st i))\<rparr>)"
  by (simp add: axis_body_def)

lemma axis_loop_soft:
  "\<not> h \<Longrightarrow> axis_loop b ee h ai ei i st =
     Some (st\<lparr>axis_homing := (\<lambda>j. if i \<le> j \<and> j < STEPPER_COUNT then False else axis_homing st j),
              stepperAxis := (\<lambda>j. if i \<le> j \<and> j < STEPPER_COUNT
                                  then reset_dda j (stepperAxis st j) else stepperAxis st j)\<rparr>)"
proof (induction b ee h ai ei i st rule: axis_loop.induct)
  case (1 b ee h ai ei i st)
  then have h: "h = False" by simp
  show ?case
  proof (cases "i < STEPPER_COUNT")
    case True
    let ?st1 = "st\<lparr>axis_homing := (axis_homing st)(i := False),
              stepperAxis := (stepperAxis st)(i := reset_dda i (stepperAxis st i))\<rparr>"
    have "axis_loop b ee h ai ei i st = axis_loop b ee h ai ei (i + 1) ?st1"
      using True by (subst axis_loop.simps) (simp add: axis_body_soft h)
    also have "\<dots> = Some (?st1\<lparr>axis_homing := (\<lambda>j. if i + 1 \<le> j \<and> j < STEPPER_COUNT then False else axis_homing ?st1 j),
              stepperAxis := (\<lambda>j. if i + 1 \<le> j \<and> j < STEPPER_COUNT
                                  then reset_dda j (stepperAxis ?st1 j) else stepperAxis ?st1 j)\<rparr>)"
      using True by (intro "1.IH") (simp_all add: axis_body_soft h)
    also have "\<dots> = Some (st\<lparr>axis_homing := (\<lambda>j. if i \<le> j \<and> j < STEPPER_COUNT then False else axis_homing st j),
              stepperAxis := (\<lambda>j. if i \<le> j \<and> j < STEPPER_COUNT
                                  then reset_dda j (stepperAxis st j) else stepperAxis st j)\<rparr>)"
      using True by (auto simp: fun_eq_iff)
    finally show ?thesis .
  next
    case False
    then have "(\<lambda>j. if i \<le> j \<and> j < STEPPER_COUNT then False else axis_homing st j) = axis_homing st"
      and "(\<lambda>j. if i \<le> j \<and> j < STEPPER_COUNT
                then reset_dda j (stepperAxis st j) else stepperAxis st j) = stepperAxis st"
      by (auto simp: fun_eq_iff)
    with False show ?thesis by (subst axis_loop.simps) simp
  qed
qed

lemma e_steps_loop_eq:
  "e_steps_loop b i st =
     st\<lparr>e_steps := (\<lambda>j. if i \<le> j \<and> j < EXTRUDERS b then 0 else e_steps st j)\<rparr>"
proof (induction b i st rule: e_steps_loop.induct)
  case (1 b i st)
  show ?case
  proof (cases "i < EXTRUDERS b")
    case True
    let ?st1 = "st\<lparr>e_steps := (e_steps st)(i := 0)\<rparr>"
    have "e_steps_loop b i st = e_steps_loop b (i + 1) ?st1"
      using True by (subst e_steps_loop.simps) simp
    also have "\<dots> = ?st1\<lparr>e_steps := (\<lambda>j. if i + 1 \<le> j \<and> j < EXTRUDERS b then 0 else e_steps ?st1 j)\<rparr>"
      using True by (rule "1.IH")
    also have "\<dots> = st\<lparr>e_steps := (\<lambda>j. if i \<le> j \<and> j < EXTRUDERS b then 0 else e_steps st j)\<rparr>"
      using True by (auto simp: fun_eq_iff)
    finally show ?thesis .
  next
    case False
    then have "(\<lambda>j. if i \<le> j \<and> j < EXTRUDERS b then 0 else e_steps st j) = e_steps st"
      by (auto simp: fun_eq_iff)
    with False show ?thesis by (subst e_steps_loop.simps) simp
  qed
qed

lemma stepperAxisInit_soft:
  "stepperAxisInit b ee False st =
     Some (st\<lparr>axis_homing := (\<lambda>j. if j < STEPPER_COUNT then False else axis_homing st j),
              stepperAxis := (\<lambda>j. if j < STEPPER_COUNT
                                  then reset_dda j (stepperAxis st j) else stepperAxis st j),
              e_steps := (\<lambda>j. if j < EXTRUDERS b then 0 else e_steps st j)\<rparr>)"
  by (simp add: stepperAxisInit_def axis_loop_soft e_steps_loop_eq cong: if_cong)

lemma setup_pins_frame:
  "stepperAxis (setup_pins b i st) = stepperAxis st"
  "dda_position (setup_pins b i st) = dda_position st"
  "axis_homing (setup_pins b i st) = axis_homing st"
  "e_steps (setup_pins b i st) = e_steps st"
  "axesEnabled (setup_pins b i st) = axesEnabled st"
  "axesHardwareEnabled (setup_pins b i st) = axesHardwareEnabled st"
  "pstop_enable (setup_pins b i st) = pstop_enable st"
  "stepperAxisPorts (setup_pins b i st) = stepperAxisPorts st"
  by (simp_all add: setup_pins_def Let_def)

lemma axis_body_hard:
  assumes "axis_body b ee True ai ei i st = Some st'"
  shows "\<exists>a. hard_reset_axis b ee ai ei i (stepperAxis st i) = Some a
           \<and> stepperAxis st' = (stepperAxis st)(i := hard_axis_final i a)"
    and "dda_position st' = (dda_position st)(i := 0)"
    and "axis_homing st' = (axis_homing st)(i := False)"
    and "e_steps st' = e_steps st"
    and "axesEnabled st' = axesEnabled st"
    and "axesHardwareEnabled st' = axesHardwareEnabled st"
    and "pstop_enable st' = pstop_enable st"
    and "stepperAxisPorts st' = stepperAxisPorts st"
  using assms
  by (auto simp: axis_body_def hard_axis_final_def setup_pins_frame Let_def bind_eq_Some_conv)

lemma axis_body_hard_defined:
  "hard_reset_axis b ee ai ei i (stepperAxis st i) \<noteq> None
     \<Longrightarrow> axis_body b ee True ai ei i st \<noteq> None"
  by (auto simp: axis_body_def Let_def)

lemma axis_loop_hard:
  "h \<Longrightarrow> axis_loop b ee h ai ei i st = Some st' \<Longrightarrow>
     (\<forall>j. i \<le> j \<and> j < STEPPER_COUNT \<longrightarrow>
        (\<exists>a. hard_reset_axis b ee ai ei j (stepperAxis st j) = Some a
           \<and> stepperAxis st' j = hard_axis_final j a)
        \<and> dda_position st' j = 0 \<and> axis_homing st' j = False)
   \<and> (\<forall>j. \<not> (i \<le> j \<and> j < STEPPER_COUNT) \<longrightarrow>
        stepperAxis st' j = stepperAxis st j
        \<and> dda_position st' j = dda_position st j
        \<and> axis_homing st' j = axis_homing st j)
   \<and> e_steps st' = e_steps st
   \<and> axesEnabled st' = axesEnabled st
   \<and> axesHardwareEnabled st' = axesHardwareEnabled st
   \<and> pstop_enable st' = pstop_enable st
   \<and> stepperAxisPorts st' = stepperAxisPorts st"
proof (induction b ee h ai ei i st rule: axis_loop.induct)
  case (1 b ee h ai ei i st)
  then have h: "h = True" by simp
  show ?case
  proof (cases "i < STEPPER_COUNT")
    case True
    from "1.prems"(2) True obtain st1 where
      body: "axis_body b ee True ai ei i st = Some st1" and
      rest: "axis_loop b ee h ai ei (i + 1) st1 = Some st'"
      by (subst (asm) axis_loop.simps) (auto simp: h split: option.splits)
    note B = axis_body_hard [OF body]
    from B(1) obtain a where a: "hard_reset_axis b ee ai ei i (stepperAxis st i) = Some a"
      "stepperAxis st1 = (stepperAxis st)(i := hard_axis_final i a)" by blast
    have IH: "(\<forall>j. i + 1 \<le> j \<and> j < STEPPER_COUNT \<longrightarrow>
        (\<exists>a. hard_reset_axis b ee ai ei j (stepperAxis st1 j) = Some a
           \<and> stepperAxis st' j = hard_axis_final j a)
        \<and> dda_position st' j = 0 \<and> axis_homing st' j = False)
   \<and> (\<forall>j. \<not> (i + 1 \<le> j \<and> j < STEPPER_COUNT) \<longrightarrow>
        stepperAxis st' j = stepperAxis st1 j
        \<and> dda_position st' j = dda_position st1 j
        \<and> axis_homing st' j = axis_homing st1 j)
   \<and> e_steps st' = e_steps st1
   \<and> axesEnabled st' = axesEnabled st1
   \<and> axesHardwareEnabled st' = axesHardwareEnabled st1
   \<and> pstop_enable st' = pstop_enable st1
   \<and> stepperAxisPorts st' = stepperAxisPorts st1"
      using "1.IH" [OF True _ "1.prems"(1) rest] body h by simp
    have in_range: "(\<exists>a. hard_reset_axis b ee ai ei j (stepperAxis st j) = Some a
           \<and> stepperAxis st' j = hard_axis_final j a)
        \<and> dda_position st' j = 0 \<and> axis_homing st' j = False"
      if "i \<le> j" "j < STEPPER_COUNT" for j
    proof (cases "j = i")
      case True
      with IH a B(2,3) show ?thesis by simp
    next
      case False
      with that have "i + 1 \<le> j \<and> j < STEPPER_COUNT" by simp
      with IH False a(2) show ?thesis by simp
    qed
    have out_range: "stepperAxis st' j = stepperAxis st j
        \<and> dda_position st' j = dda_position st j
        \<and> axis_homing st' j = axis_homing st j"
      if "\<not> (i \<le> j \<and> j < STEPPER_COUNT)" for j
    proof -
      from that True have "\<not> (i + 1 \<le> j \<and> j < STEPPER_COUNT)" "j \<noteq> i" by auto
      with IH a(2) B(2,3) show ?thesis by simp
    qed
    from IH B(4-8) in_range out_range show ?thesis by simp
  next
    case False
    with "1.prems"(2) have "st' = st" by (subst (asm) axis_loop.simps) simp
    with False show ?thesis by auto
  qed
qed

lemma axis_loop_hard_defined:
  "h \<Longrightarrow> \<forall>j. i \<le> j \<and> j < STEPPER_COUNT \<longrightarrow>
          hard_reset_axis b ee ai ei j (stepperAxis st j) \<noteq> None
     \<Longrightarrow> axis_loop b ee h ai ei i st \<noteq> None"
proof (induction b ee h ai ei i st rule: axis_loop.induct)
  case (1 b ee h ai ei i st)
  then have h: "h = True" by simp
  show ?case
  proof (cases "i < STEPPER_COUNT")
    case True
    with "1.prems"(2) have "axis_body b ee True ai ei i st \<noteq> None"
      by (intro axis_body_hard_defined) simp
    then obtain st1 where body: "axis_body b ee True ai ei i st = Some st1" by blast
    from axis_body_hard(1) [OF body] have
      "stepperAxis st1 j = stepperAxis st j" if "j \<noteq> i" for j using that by auto
    with "1.prems"(2) have "\<forall>j. i + 1 \<le> j \<and> j < STEPPER_COUNT \<longrightarrow>
          hard_reset_axis b ee ai ei j (stepperAxis st1 j) \<noteq> None" by simp
    with "1.IH" [OF True _ "1.prems"(1)] body h
    have "axis_loop b ee h ai ei (i + 1) st1 \<noteq> None" by simp
    with True body h show ?thesis by (subst axis_loop.simps) simp
  next
    case False
    then show ?thesis by (subst axis_loop.simps) simp
  qed
qed

section \<open>The whole initialisation\<close>

lemma load_pstop_frame:
  "stepperAxis (load_pstop b ee st) = stepperAxis st"
  "dda_position (load_pstop b ee st) = dda_position st"
  "axis_homing (load_pstop b ee st) = axis_homing st"
  "e_steps (load_pstop b ee st) = e_steps st"
  "axesEnabled (load_pstop b ee st) = axesEnabled st"
  "axesHardwareEnabled (load_pstop b ee st) = axesHardwareEnabled st"
  by (simp_all add: load_pstop_def Let_def)

lemma reset_enabled_frame:
  "stepperAxis (reset_enabled b st) = stepperAxis st"
  "dda_position (reset_enabled b st) = dda_position st"
  "axis_homing (reset_enabled b st) = axis_homing st"
  "e_steps (reset_enabled b st) = e_steps st"
  "axesEnabled (reset_enabled b st) = 0"
  "axesHardwareEnabled (reset_enabled b st) = 0"
  by (simp_all add: reset_enabled_def Let_def)

lemma stepperAxisInit_hard:
  assumes "stepperAxisInit b ee True st = Some st'"
  shows "\<forall>j. j < STEPPER_COUNT \<longrightarrow>
        (\<exists>a. hard_reset_axis b ee (AXIS_INVERSION ee) (ENDSTOP_INVERSION ee) j (stepperAxis st j) = Some a
           \<and> stepperAxis st' j = hard_axis_final j a)
        \<and> dda_position st' j = 0 \<and> axis_homing st' j = False"
    and "\<forall>j. \<not> j < STEPPER_COUNT \<longrightarrow>
        stepperAxis st' j = stepperAxis st j
        \<and> dda_position st' j = dda_position st j
        \<and> axis_homing st' j = axis_homing st j"
    and "e_steps st' = (\<lambda>j. if j < EXTRUDERS b then 0 else e_steps st j)"
    and "axesEnabled st' = 0"
    and "axesHardwareEnabled st' = 0"
proof -
  from assms obtain st1 where
    loop: "axis_loop b ee True (AXIS_INVERSION ee) (ENDSTOP_INVERSION ee) 0 (load_pstop b ee st) = Some st1"
    and st': "st' = e_steps_loop b 0 (reset_enabled b st1)"
    by (auto simp: stepperAxisInit_def bind_eq_Some_conv)
  note L = axis_loop_hard [OF _ loop, simplified, unfolded load_pstop_frame]
  show "\<forall>j. j < STEPPER_COUNT \<longrightarrow>
        (\<exists>a. hard_reset_axis b ee (AXIS_INVERSION ee) (ENDSTOP_INVERSION ee) j (stepperAxis st j) = Some a
           \<and> stepperAxis st' j = hard_axis_final j a)
        \<and> dda_position st' j = 0 \<and> axis_homing st' j = False"
    using L by (simp add: st' e_steps_loop_eq reset_enabled_frame)
  show "\<forall>j. \<not> j < STEPPER_COUNT \<longrightarrow>
        stepperAxis st' j = stepperAxis st j
        \<and> dda_position st' j = dda_position st j
        \<and> axis_homing st' j = axis_homing st j"
    using L by (simp add: st' e_steps_loop_eq reset_enabled_frame)
  show "e_steps st' = (\<lambda>j. if j < EXTRUDERS b then 0 else e_steps st j)"
    using L by (simp add: st' e_steps_loop_eq reset_enabled_frame cong: if_cong)
  show "axesEnabled st' = 0" "axesHardwareEnabled st' = 0"
    by (simp_all add: st' e_steps_loop_eq reset_enabled_frame)
qed

lemma stepperAxisInit_hard_defined:
  assumes "\<forall>j. j < STEPPER_COUNT \<longrightarrow>
     hard_reset_axis b ee (AXIS_INVERSION ee) (ENDSTOP_INVERSION ee) j (stepperAxis st j) \<noteq> None"
  shows "stepperAxisInit b ee True st \<noteq> None"
proof -
  have "axis_loop b ee True (AXIS_INVERSION ee) (ENDSTOP_INVERSION ee) 0 (load_pstop b ee st) \<noteq> None"
    using assms by (intro axis_loop_hard_defined) (simp_all add: load_pstop_frame)
  then show ?thesis by (auto simp: stepperAxisInit_def)
qed

lemma bit_test: "((w::uint8_t) AND push_bit i 1 \<noteq> 0) = bit w i"
  by (simp add: bit_iff_and_push_bit_not_eq_0)

lemmas axis_defs = STEPPER_COUNT_def X_AXIS_def Y_AXIS_def Z_AXIS_def A_AXIS_def B_AXIS_def

lemma axis_cases: "j < STEPPER_COUNT \<longleftrightarrow> j = X_AXIS \<or> j = Y_AXIS \<or> j = Z_AXIS \<or> j = A_AXIS \<or> j = B_AXIS"
  unfolding axis_defs by arith

lemma axis_limits_frame:
  "invert_endstop (axis_limits b ee i len a) = invert_endstop a"
  "invert_axis (axis_limits b ee i len a) = invert_axis a"
  "steps_per_mm (axis_limits b ee i len a) = steps_per_mm a"
  "max_feedrate (axis_limits b ee i len a) = max_feedrate a"
  "min_interval (axis_limits b ee i len a) = min_interval a"
  "hasHomed (axis_limits b ee i len a) = hasHomed a"
  "hasDefinePosition (axis_limits b ee i len a) = hasDefinePosition a"
  "dda (axis_limits b ee i len a) = dda a"
  by (simp_all add: axis_limits_def Let_def)

lemma axis_limits_XY:
  assumes "i = X_AXIS \<or> i = Y_AXIS"
  shows "max_axis_steps_limit (axis_limits b ee i len a) = len sdiv 2"
    and "min_axis_steps_limit (axis_limits b ee i len a) = int32_wrap (- (len sdiv 2))"
  using assms by (simp_all add: axis_limits_def Let_def)

lemma axis_limits_Z:
  assumes "i = Z_AXIS"
  shows "max_axis_steps_limit (axis_limits b ee i len a) =
      (if \<not> Z_HOME_MAX b then int32_wrap (len - uint32_to_int32 (AXIS_HOME_POSITIONS_STEPS ee i))
       else uint32_to_int32 (AXIS_HOME_POSITIONS_STEPS ee i))"
    and "min_axis_steps_limit (axis_limits b ee i len a) = 0"
  using assms by (simp_all add: axis_limits_def Let_def axis_defs)

lemma axis_limits_AB:
  assumes "i = A_AXIS \<or> i = B_AXIS"
  shows "max_axis_steps_limit (axis_limits b ee i len a) = len"
    and "min_axis_steps_limit (axis_limits b ee i len a) = int32_wrap (- len)"
  using assms by (auto simp: axis_limits_def Let_def axis_defs)

lemma hard_reset_axis_eq:
  "hard_reset_axis b ee ai ei i a =
     Some (axis_limits b ee i (loaded_length b ee i)
       (a\<lparr>invert_endstop := \<not> bit ei 7 \<or> bit ei i,
          invert_axis := bit ai i,
          steps_per_mm := loaded_steps_per_mm b ee i,
          max_feedrate := loaded_max_feedrate b ee i,
          min_interval := (if loaded_f b ee i = 0 then 500 else 1000000 sdiv loaded_f b ee i)\<rparr>))"
  unfolding hard_reset_axis_def Let_def bit_test
  by (simp add: checked_div_def loaded_length_def loaded_f_def loaded_steps_per_mm_def
      loaded_max_feedrate_def)

text \<open>
  A division by zero would leave the model without a result. A hard reset always has
  one: its only division, in line 104, is guarded by the test of its divisor.
\<close>

lemma checked_div_zero: "checked_div a 0 = None"
  by (simp add: checked_div_def)

lemma stepperAxisInit_hard_total: "stepperAxisInit b ee True st \<noteq> None"
  by (rule stepperAxisInit_hard_defined) (simp add: hard_reset_axis_eq)

lemma stepperAxisInit_total: "stepperAxisInit b ee hard_reset st \<noteq> None"
  by (cases hard_reset) (simp_all add: stepperAxisInit_hard_total stepperAxisInit_soft)

lemma hard_axis_final_fields:
  "invert_endstop (hard_axis_final i a) = invert_endstop a"
  "invert_axis (hard_axis_final i a) = invert_axis a"
  "steps_per_mm (hard_axis_final i a) = steps_per_mm a"
  "max_feedrate (hard_axis_final i a) = max_feedrate a"
  "min_interval (hard_axis_final i a) = min_interval a"
  "min_axis_steps_limit (hard_axis_final i a) = min_axis_steps_limit a"
  "max_axis_steps_limit (hard_axis_final i a) = max_axis_steps_limit a"
  "hasHomed (hard_axis_final i a) = False"
  "hasDefinePosition (hard_axis_final i a) = False"
  by (simp_all add: hard_axis_final_def reset_dda_def)

lemma stepperAxisInit_hard_axis:
  assumes "stepperAxisInit b ee True st = Some st'" and "i < STEPPER_COUNT"
  shows "stepperAxis st' i = hard_axis_final i
     (axis_limits b ee i (loaded_length b ee i)
       ((stepperAxis st i)\<lparr>invert_endstop := \<not> bit (ENDSTOP_INVERSION ee) 7 \<or> bit (ENDSTOP_INVERSION ee) i,
          invert_axis := bit (AXIS_INVERSION ee) i,
          steps_per_mm := loaded_steps_per_mm b ee i,
          max_feedrate := loaded_max_feedrate b ee i,
          min_interval := (if loaded_f b ee i = 0 then 500 else 1000000 sdiv loaded_f b ee i)\<rparr>))"
  using stepperAxisInit_hard(1) [OF assms(1)] assms(2) by (auto simp: hard_reset_axis_eq)

lemma hard_reset_loaded:
  assumes "stepperAxisInit b ee True st = Some st'" and "i < STEPPER_COUNT"
  shows "invert_endstop (stepperAxis st' i) = (\<not> bit (ENDSTOP_INVERSION ee) 7 \<or> bit (ENDSTOP_INVERSION ee) i)"
    and "invert_axis (stepperAxis st' i) = bit (AXIS_INVERSION ee) i"
    and "steps_per_mm (stepperAxis st' i) = loaded_steps_per_mm b ee i"
    and "max_feedrate (stepperAxis st' i) = loaded_max_feedrate b ee i"
    and "min_interval (stepperAxis st' i) =
           (if loaded_f b ee i = 0 then 500 else 1000000 sdiv loaded_f b ee i)"
  unfolding stepperAxisInit_hard_axis [OF assms]
  by (simp_all add: hard_axis_final_fields axis_limits_frame)

lemma hard_reset_limits:
  assumes "stepperAxisInit b ee True st = Some st'" and "i < STEPPER_COUNT"
  shows "i = X_AXIS \<or> i = Y_AXIS \<Longrightarrow>
           max_axis_steps_limit (stepperAxis st' i) = loaded_length b ee i sdiv 2
         \<and> min_axis_steps_limit (stepperAxis st' i) = int32_wrap (- (loaded_length b ee i sdiv 2))"
    and "i = A_AXIS \<or> i = B_AXIS \<Longrightarrow>
           max_axis_steps_limit (stepperAxis st' i) = loaded_length b ee i
         \<and> min_axis_steps_limit (stepperAxis st' i) = int32_wrap (- loaded_length b ee i)"
    and "i = Z_AXIS \<Longrightarrow> min_axis_steps_limit (stepperAxis st' i) = 0"
    and "i = Z_AXIS \<Longrightarrow> \<not> Z_HOME_MAX b \<Longrightarrow>
           max_axis_steps_limit (stepperAxis st' i) =
             int32_wrap (loaded_length b ee i - uint32_to_int32 (AXIS_HOME_POSITIONS_STEPS ee i))"
  unfolding stepperAxisInit_hard_axis [OF assms]
  by (simp_all add: hard_axis_final_fields axis_limits_XY axis_limits_Z axis_limits_AB)

lemma hard_axis_final_indep:
  assumes "i < STEPPER_COUNT"
  shows "hard_axis_final i (axis_limits b ee i len
     (x\<lparr>invert_endstop := ie, invert_axis := ia, steps_per_mm := s, max_feedrate := mf,
        min_interval := mi\<rparr>))
   = hard_axis_final i (axis_limits b ee i len
     (y\<lparr>invert_endstop := ie, invert_axis := ia, steps_per_mm := s, max_feedrate := mf,
        min_interval := mi\<rparr>))"
proof -
  from assms consider "i = X_AXIS \<or> i = Y_AXIS" | "i = Z_AXIS" | "i = A_AXIS \<or> i = B_AXIS"
    unfolding axis_cases by blast
  then show ?thesis
  proof cases
    case 1
    then show ?thesis
      by (cases x, cases y, cases "dda x", cases "dda y")
         (simp add: hard_axis_final_def reset_dda_def axis_limits_def Let_def)
  next
    case 2
    then show ?thesis
      by (cases x, cases y, cases "dda x", cases "dda y")
         (simp add: hard_axis_final_def reset_dda_def axis_limits_def Let_def axis_defs)
  next
    case 3
    then show ?thesis
      by (cases x, cases y, cases "dda x", cases "dda y")
         (auto simp: hard_axis_final_def reset_dda_def axis_limits_def Let_def axis_defs)
  qed
qed

lemma reset_dda_fields:
  "invert_endstop (reset_dda i a) = invert_endstop a"
  "invert_axis (reset_dda i a) = invert_axis a"
  "steps_per_mm (reset_dda i a) = steps_per_mm a"
  "max_feedrate (reset_dda i a) = max_feedrate a"
  "min_interval (reset_dda i a) = min_interval a"
  "min_axis_steps_limit (reset_dda i a) = min_axis_steps_limit a"
  "max_axis_steps_limit (reset_dda i a) = max_axis_steps_limit a"
  "hasHomed (reset_dda i a) = hasHomed a"
  "hasDefinePosition (reset_dda i a) = hasDefinePosition a"
  "counter (dda (reset_dda i a)) = 0"
  "direction (dda (reset_dda i a)) = 1"
  "stepperDir (dda (reset_dda i a)) = False"
  "master (dda (reset_dda i a)) = False"
  "master_steps (dda (reset_dda i a)) = 0"
  "steps_completed (dda (reset_dda i a)) = 0"
  "steps (dda (reset_dda i a)) = 0"
  by (simp_all add: reset_dda_def)

lemma reset_dda_idem: "reset_dda i (reset_dda i a) = reset_dda i a"
  by (simp add: reset_dda_def)

lemma the_init: "x \<noteq> None \<Longrightarrow> x = Some (the x)"
  by simp

section \<open>Rounding, truncation and integer ranges\<close>

lemmas fl_eval = fl_def ilog2_def round_even_def pow2_def compute_bitlen Let_def float_trunc_def
  fmul_def fdiv_def dmul_def ddiv_def double_to_float_def uint32_to_float_def int32_to_float_def

lemmas int_eval = float_to_int32_def float_to_int64_def in_int32_def in_int64_def int32_wrap_def
  int64_wrap_def int64_to_int32_def uint32_to_int32_def signed_divide_int_def

lemmas loaded_defs = loaded_steps_per_mm_def loaded_max_feedrate_def loaded_f_def loaded_length_def

lemmas ee_defs = ee_ex_def ee_no_endstops_def ee_fraction_def ee_half_def ee_stalled_def
  ee_slow_def ee_fast_def ee_belt_def ee_long_def

lemmas board_defs = board_ex_def board_desktop_def

lemma round_even_nonneg: "0 \<le> x \<Longrightarrow> 0 \<le> round_even x"
  by (auto simp: round_even_def Let_def)

lemma pow2_pos: "0 < pow2 e"
  by (simp add: pow2_def)

lemma fl_nonneg: "0 \<le> x \<Longrightarrow> 0 \<le> fl t x"
  unfolding fl_def Let_def
  by (auto intro!: mult_nonneg_nonneg round_even_nonneg divide_nonneg_pos pow2_pos
      simp: less_imp_le [OF pow2_pos])

lemma uint32_to_float_nonneg: "0 \<le> uint32_to_float w"
  unfolding uint32_to_float_def by (rule fl_nonneg) (rule of_nat_0_le_iff)

lemma loaded_steps_per_mm_nonneg: "0 \<le> loaded_steps_per_mm b ee i"
  unfolding loaded_steps_per_mm_def double_to_float_def ddiv_def
  by (intro fl_nonneg divide_nonneg_nonneg uint32_to_float_nonneg) simp

lemma float_trunc_nonneg: "0 \<le> r \<Longrightarrow> 0 \<le> float_trunc r"
  by (simp add: float_trunc_def)

lemma sdiv_2_nonneg: "0 \<le> (k::int) \<Longrightarrow> 0 \<le> k sdiv 2"
  by (simp add: signed_divide_int_def sgn_if)

lemma sdiv_2_range: "in_int32 k \<Longrightarrow> in_int32 (- (k sdiv 2))"
  by (auto simp: in_int32_def signed_divide_int_def sgn_if)

lemma int32_wrap_id: "in_int32 v \<Longrightarrow> int32_wrap v = v"
  by (simp add: int32_wrap_def in_int32_def signed_take_bit_int_eq_self)

lemma float_to_int32_in_range: "in_int32 (float_trunc r) \<Longrightarrow> float_to_int32 b r = float_trunc r"
  by (simp add: float_to_int32_def)

lemma float_to_int64_in_range: "in_int64 (float_trunc r) \<Longrightarrow> float_to_int64 b r = float_trunc r"
  by (simp add: float_to_int64_def)

lemma round_even_bound: "\<bar>real_of_int (round_even x) - x\<bar> \<le> 1 / 2"
  unfolding round_even_def Let_def by (auto; linarith)

lemma pow2_powi: "pow2 e = 2 powi e"
  by (simp add: pow2_def power_int_def field_simps)

lemma ilog2_lower:
  assumes "0 < x"
  shows "pow2 (ilog2 x) \<le> x"
proof (cases "1 \<le> x")
  case True
  then have m: "0 < \<lfloor>x\<rfloor>" by simp
  from bitlen_bounds [OF m] have "2 ^ nat (bitlen \<lfloor>x\<rfloor> - 1) \<le> \<lfloor>x\<rfloor>" ..
  then have "real_of_int (2 ^ nat (bitlen \<lfloor>x\<rfloor> - 1)) \<le> real_of_int \<lfloor>x\<rfloor>" by linarith
  also have "\<dots> \<le> x" by simp
  finally have "2 ^ nat (bitlen \<lfloor>x\<rfloor> - 1) \<le> x" by simp
  moreover from m have "0 \<le> bitlen \<lfloor>x\<rfloor> - 1" by (auto simp: bitlen_alt_def)
  ultimately show ?thesis using True by (simp add: ilog2_def pow2_def)
next
  case False
  with assms have "1 < 1 / x" by simp
  then have "1 < \<lceil>1 / x\<rceil>" by linarith
  then have m: "0 < \<lceil>1 / x\<rceil> - 1" by simp
  let ?k = "bitlen (\<lceil>1 / x\<rceil> - 1)"
  from bitlen_bounds [OF m] have "\<lceil>1 / x\<rceil> - 1 < 2 ^ nat ?k" ..
  then have "\<lceil>1 / x\<rceil> \<le> 2 ^ nat ?k" by simp
  then have le: "real_of_int \<lceil>1 / x\<rceil> \<le> real_of_int (2 ^ nat ?k)" by linarith
  have "1 / x \<le> real_of_int \<lceil>1 / x\<rceil>" by (rule le_of_int_ceiling)
  also note le
  also have "real_of_int (2 ^ nat ?k) = 2 ^ nat ?k" by simp
  finally have "1 / x \<le> 2 ^ nat ?k" .
  with assms have "1 / 2 ^ nat ?k \<le> x"
    by (simp add: field_simps)
  moreover from m have "0 < ?k" by (auto simp: bitlen_alt_def)
  ultimately show ?thesis using False by (simp add: ilog2_def pow2_def)
qed

lemma fl_error_general:
  "\<bar>fl t x - x\<bar> \<le> \<bar>x\<bar> / 2 ^ mant_dig t + pow2 (min_quantum t) / 2"
proof (cases "x = 0")
  case True
  then show ?thesis by (simp add: fl_def less_imp_le [OF pow2_pos])
next
  case False
  let ?e = "ilog2 \<bar>x\<bar>"
  let ?p = "mant_dig t"
  let ?q = "max (?e - (int ?p - 1)) (min_quantum t)"
  have P: "0 < pow2 ?q" by (rule pow2_pos)
  have fl: "fl t x = real_of_int (round_even (x / pow2 ?q)) * pow2 ?q"
    using False by (simp add: fl_def Let_def)
  have "fl t x - x = (real_of_int (round_even (x / pow2 ?q)) - x / pow2 ?q) * pow2 ?q"
    unfolding fl using P by (simp add: field_simps)
  then have "\<bar>fl t x - x\<bar> = \<bar>real_of_int (round_even (x / pow2 ?q)) - x / pow2 ?q\<bar> * pow2 ?q"
    using P by (simp add: abs_mult)
  also have "\<dots> \<le> 1 / 2 * pow2 ?q"
    using P by (intro mult_right_mono round_even_bound) simp
  finally have half: "\<bar>fl t x - x\<bar> \<le> pow2 ?q / 2" by simp
  have p1: "1 \<le> ?p" by (cases t) simp_all
  have "pow2 ?q / 2 \<le> \<bar>x\<bar> / 2 ^ ?p + pow2 (min_quantum t) / 2"
  proof (cases "min_quantum t \<le> ?e - (int ?p - 1)")
    case True
    then have q: "?q = ?e - int (?p - 1)" using p1 by (simp add: max_def of_nat_diff)
    have "pow2 ?q = pow2 ?e / 2 ^ (?p - 1)"
      unfolding q pow2_powi by (simp add: power_int_diff)
    also have "\<dots> \<le> \<bar>x\<bar> / 2 ^ (?p - 1)"
      using False by (intro divide_right_mono ilog2_lower) simp_all
    finally have "pow2 ?q / 2 \<le> \<bar>x\<bar> / 2 ^ (?p - 1) / 2" by simp
    also have "\<bar>x\<bar> / 2 ^ (?p - 1) / 2 = \<bar>x\<bar> / 2 ^ ?p"
      using p1 by (cases ?p) simp_all
    finally show ?thesis using pow2_pos [of "min_quantum t"] by simp
  next
    case False
    then have "?q = min_quantum t" by (simp add: max_def)
    then show ?thesis by simp
  qed
  with half show ?thesis by linarith
qed

text \<open>
  The relative error of a rounding is at most \<open>2 ^ -24\<close> in either format, apart from
  the values below the normal range, where the absolute error is at most \<open>2 ^ -150\<close>.
\<close>

lemma fl_error: "\<bar>fl t x - x\<bar> \<le> \<bar>x\<bar> / 2 ^ 24 + 1 / 2 ^ 150"
proof -
  have a: "\<bar>x\<bar> / 2 ^ mant_dig t \<le> \<bar>x\<bar> / 2 ^ 24"
    by (cases t) (simp_all add: field_simps)
  have b: "pow2 (min_quantum t) / 2 \<le> 1 / 2 ^ 150"
    by (cases t) (simp_all add: pow2_def)
  from fl_error_general [of t x] a b show ?thesis by linarith
qed

lemma float_trunc_bound: "\<bar>real_of_int (float_trunc r) - r\<bar> < 1"
  unfolding float_trunc_def by (cases "r < 0") (simp_all, linarith+)

lemma float_trunc_of_int: "float_trunc (real_of_int k) = k"
  by (simp add: float_trunc_def)

lemma sdiv_1000_trunc: "p sdiv 1000 = float_trunc (real_of_int p / 1000)"
proof (cases "p < 0")
  case False
  then have "p sdiv 1000 = p div 1000"
    by (simp add: signed_divide_int_def sgn_if)
  also have "\<dots> = \<lfloor>real_of_int p / real_of_int 1000\<rfloor>"
    by (simp only: floor_divide_of_int_eq)
  finally show ?thesis using False by (simp add: float_trunc_def)
next
  case True
  then have "p sdiv 1000 = - ((- p) div 1000)"
    by (simp add: signed_divide_int_def sgn_if)
  also have "(- p) div 1000 = \<lfloor>real_of_int (- p) / real_of_int 1000\<rfloor>"
    by (simp only: floor_divide_of_int_eq)
  also have "- \<dots> = \<lceil>real_of_int p / 1000\<rceil>"
    by (simp add: ceiling_def)
  finally show ?thesis using True by (simp add: float_trunc_def)
qed

lemma in_int32_sdiv_1000:
  assumes "in_int32 (p sdiv 1000)"
  shows "in_int64 p"
proof -
  have "\<bar>p\<bar> div 1000 \<le> 2 ^ 31"
    using assms by (auto simp: in_int32_def signed_divide_int_def sgn_if split: if_splits)
  then have "\<bar>p\<bar> < (2 ^ 31 + 1) * 1000" by simp
  then show ?thesis unfolding in_int64_def by simp linarith
qed

lemma int64_to_int32_id: "in_int32 v \<Longrightarrow> int64_to_int32 v = v"
  by (simp add: int64_to_int32_def in_int32_def signed_take_bit_int_eq_self)

lemma int64_wrap_id: "in_int64 v \<Longrightarrow> int64_wrap v = v"
  by (simp add: int64_wrap_def in_int64_def signed_take_bit_int_eq_self)

lemma sdiv_beyond: "1000000 < \<bar>d\<bar> \<Longrightarrow> (1000000::int) sdiv d = 0"
  by (simp add: signed_divide_int_def)

lemma beyond_int32: "\<not> in_int32 t \<Longrightarrow> 1000000 < \<bar>t\<bar>"
  by (simp add: in_int32_def) linarith

section \<open>Evaluation at the concrete configurations\<close>

lemma ex_spm:
  "loaded_steps_per_mm board_ex ee_ex X_AXIS = 88"
  "loaded_steps_per_mm board_ex ee_ex Z_AXIS = 400"
  "loaded_steps_per_mm board_ex ee_ex A_AXIS = fl Binary32 96.275"
  "loaded_steps_per_mm board_ex ee_belt X_AXIS = fl Binary32 94.139704"
  "loaded_steps_per_mm board_ex ee_fraction A_AXIS = 1.75"
  "loaded_steps_per_mm board_ex ee_half X_AXIS = 2.5"
  "loaded_steps_per_mm board_ex ee_long X_AXIS = 1000"
  "loaded_steps_per_mm board_ex ee_long A_AXIS = 1000"
  "loaded_steps_per_mm board_ex ee_slow Z_AXIS = 400"
  "loaded_steps_per_mm board_ex ee_stalled X_AXIS = 88"
  "loaded_steps_per_mm board_ex ee_fast Z_AXIS = 400"
  by (simp_all add: loaded_defs board_defs ee_defs axis_defs fl_eval)

section \<open>The conversions between mm and steps\<close>

lemma stepperAxisMMToSteps_in_range:
  assumes "axis < STEPPER_COUNT"
    and "in_int64 (float_trunc (dmul b mm 1000))"
    and "in_int64 (float_trunc (steps_per_mm (stepperAxis st axis)))"
    and "in_int32 (mmToSteps_double b mm (steps_per_mm (stepperAxis st axis)))"
  shows "stepperAxisMMToSteps b mm axis st
           = Some (mmToSteps_double b mm (steps_per_mm (stepperAxis st axis)))"
proof -
  from assms(4)
  have "in_int64 (float_trunc (dmul b mm 1000) * float_trunc (steps_per_mm (stepperAxis st axis)))"
    unfolding mmToSteps_double_def by (rule in_int32_sdiv_1000)
  with assms show ?thesis
    by (simp add: stepperAxisMMToSteps_def float_to_int64_in_range int64_wrap_id
        mmToSteps_double_def int64_to_int32_id Let_def)
qed

lemma mm_to_steps_example:
  assumes "axis < STEPPER_COUNT" and "steps_per_mm (stepperAxis st axis) = 100"
  shows "stepperAxisMMToSteps b (fl Binary32 1.2345) axis st = Some 123"
proof -
  have v: "fl Binary32 1.2345 = 10355737 / 8388608" by (simp add: fl_eval)
  have "float_trunc (dmul b (10355737 / 8388608) 1000) = 1234"
    by (cases "DOUBLE b") (simp_all add: fl_eval)
  then show ?thesis
    using assms unfolding v
    by (simp add: stepperAxisMMToSteps_def Let_def float_to_int64_def in_int64_def
        int64_wrap_def int64_to_int32_def signed_divide_int_def float_trunc_def)
qed

text \<open>
  Claim C1, amended. The product of \<open>mm\<close> and 1000 is a product of
  \<^verbatim>\<open>double\<close>s: it is rounded to the \<^verbatim>\<open>double\<close> of the board (to 24 bits on the AVR,
  where a \<^verbatim>\<open>double\<close> is a \<^verbatim>\<open>float\<close>) before it is truncated. For every axis and every
  \<open>mm\<close> for which no step leaves its integer type (the truncated rounded product and the
  truncated steps per mm fit 64 bits, the quotient fits 32 bits),
  \<^verbatim>\<open>stepperAxisMMToSteps\<close> returns the truncated rounded product, times the truncated
  steps per mm, divided by 1000 with truncation. In particular the \<^verbatim>\<open>float\<close> nearest to
  1.2345 at 100 steps per mm gives 123 steps, with either format of \<^verbatim>\<open>double\<close>.
\<close>

theorem mm_to_steps_in_range:
  assumes "axis < STEPPER_COUNT"
  shows "(in_int64 (float_trunc (dmul b mm 1000))
          \<and> in_int64 (float_trunc (steps_per_mm (stepperAxis st axis)))
          \<and> in_int32 (mmToSteps_double b mm (steps_per_mm (stepperAxis st axis)))
          \<longrightarrow> stepperAxisMMToSteps b mm axis st
                = Some (mmToSteps_double b mm (steps_per_mm (stepperAxis st axis))))
       \<and> (steps_per_mm (stepperAxis st axis) = 100
          \<longrightarrow> stepperAxisMMToSteps b (fl Binary32 1.2345) axis st = Some 123)"
proof (intro conjI impI)
  assume "in_int64 (float_trunc (dmul b mm 1000))
          \<and> in_int64 (float_trunc (steps_per_mm (stepperAxis st axis)))
          \<and> in_int32 (mmToSteps_double b mm (steps_per_mm (stepperAxis st axis)))"
  with assms show "stepperAxisMMToSteps b mm axis st
                = Some (mmToSteps_double b mm (steps_per_mm (stepperAxis st axis)))"
    by (intro stepperAxisMMToSteps_in_range) simp_all
next
  assume "steps_per_mm (stepperAxis st axis) = 100"
  with assms show "stepperAxisMMToSteps b (fl Binary32 1.2345) axis st = Some 123"
    by (rule mm_to_steps_example)
qed

text \<open>
  At 100 steps per mm, the \<^verbatim>\<open>float\<close> nearest to 4.35 (which is less than 4.35) gives 435
  steps on the AVR board, where its product with 1000 is rounded to 4350, and 434 steps with
  a \<^verbatim>\<open>double\<close> of 64 bits; -5/256 mm are -1 step (-19 thousandths, -1900, towards zero);
  the \<^verbatim>\<open>float\<close> nearest to 1.2345 gives 123 steps on both boards.
\<close>

theorem mm_to_steps_in_range_witness:
  "X_AXIS < STEPPER_COUNT
   \<and> steps_per_mm (stepperAxis machine_100 X_AXIS) = 100
   \<and> in_int64 (float_trunc (dmul board_ex (fl Binary32 4.35) 1000))
   \<and> in_int64 (float_trunc (steps_per_mm (stepperAxis machine_100 X_AXIS)))
   \<and> in_int32 (mmToSteps_double board_ex (fl Binary32 4.35) (steps_per_mm (stepperAxis machine_100 X_AXIS)))
   \<and> stepperAxisMMToSteps board_ex (fl Binary32 4.35) X_AXIS machine_100 = Some 435
   \<and> stepperAxisMMToSteps board_desktop (fl Binary32 4.35) X_AXIS machine_100 = Some 434
   \<and> stepperAxisMMToSteps board_ex (- 5 / 256) X_AXIS machine_100 = Some (- 1)
   \<and> stepperAxisMMToSteps board_ex (fl Binary32 1.2345) X_AXIS machine_100 = Some 123
   \<and> stepperAxisMMToSteps board_desktop (fl Binary32 1.2345) X_AXIS machine_100 = Some 123"
proof -
  have lt: "X_AXIS < STEPPER_COUNT" by (simp add: axis_defs)
  have spm: "steps_per_mm (stepperAxis machine_100 X_AXIS) = 100"
    by (simp add: machine_100_def machine_zero_def axis_zero_def)
  have v: "fl Binary32 4.35 = 9122611 / 2097152" by (simp add: fl_eval)
  have p: "dmul board_ex (9122611 / 2097152) 1000 = 4350"
    "dmul board_desktop (9122611 / 2097152) 1000 = 9122611000 / 2097152"
    "dmul board_ex (- 5 / 256) 1000 = - 5000 / 256"
    by (simp_all add: board_defs fl_eval)
  have s: "mmToSteps_double board_ex (9122611 / 2097152) 100 = 435"
    "mmToSteps_double board_desktop (9122611 / 2097152) 100 = 434"
    "mmToSteps_double board_ex (- 5 / 256) 100 = - 1"
    unfolding mmToSteps_double_def p by (simp_all add: float_trunc_def signed_divide_int_def)
  have r: "in_int64 (float_trunc (dmul board_ex (9122611 / 2097152) 1000))"
    "in_int64 (float_trunc (dmul board_desktop (9122611 / 2097152) 1000))"
    "in_int64 (float_trunc (dmul board_ex (- 5 / 256) 1000))"
    "in_int64 (float_trunc (100::real))" "in_int32 435" "in_int32 434" "in_int32 (- 1)"
    unfolding p by (simp_all add: float_trunc_def in_int64_def in_int32_def)
  from mm_to_steps_in_range [OF lt, of board_ex "9122611 / 2097152" machine_100]
    mm_to_steps_in_range [OF lt, of board_desktop "9122611 / 2097152" machine_100]
    mm_to_steps_in_range [OF lt, of board_ex "- 5 / 256" machine_100]
    mm_to_steps_in_range [OF lt, of board_desktop "- 5 / 256" machine_100]
  show ?thesis unfolding v spm s using lt r by simp
qed

text \<open>
  Claim C1 as the spec words it, for every \<open>mm\<close> and with the scaling in real arithmetic,
  fails in two ways on the AVR board at 100 steps per mm. For 33554432 mm the spec's
  computation gives 3355443200 and the function returns -939524096: the quotient does not
  fit the \<^verbatim>\<open>int32_t\<close> that is returned. For the \<^verbatim>\<open>float\<close> nearest to 4.35 the spec's
  computation gives 434 and the function returns 435: the product is rounded before it is
  truncated.
\<close>

theorem mm_to_steps_counterexample:
  "stepperAxisMMToSteps board_ex 33554432 X_AXIS machine_100 = Some (- 939524096)
   \<and> mmToSteps_spec 33554432 (steps_per_mm (stepperAxis machine_100 X_AXIS)) = 3355443200
   \<and> stepperAxisMMToSteps board_ex (fl Binary32 4.35) X_AXIS machine_100 = Some 435
   \<and> mmToSteps_spec (fl Binary32 4.35) (steps_per_mm (stepperAxis machine_100 X_AXIS)) = 434"
proof -
  have spm: "steps_per_mm (stepperAxis machine_100 X_AXIS) = 100"
    by (simp add: machine_100_def machine_zero_def axis_zero_def)
  have v: "fl Binary32 4.35 = 9122611 / 2097152" by (simp add: fl_eval)
  have p: "dmul board_ex (9122611 / 2097152) 1000 = 4350"
    "dmul board_ex 33554432 1000 = 33554432000"
    by (simp_all add: board_defs fl_eval)
  show ?thesis
    unfolding stepperAxisMMToSteps_def mmToSteps_spec_def v spm Let_def p
    by (simp add: axis_defs float_trunc_def int_eval)
qed

lemma round_trip_linear:
  fixes x d N G H I r :: real
  assumes a: "\<bar>G - N / 1000\<bar> < I" and I: "I \<le> 1"
    and b: "\<bar>d - x * 1000\<bar> \<le> 1000 * \<bar>x\<bar> / 16777216 + 1 / 1099511627776"
    and c: "\<bar>N - d\<bar> < 1"
    and e: "\<bar>H - G\<bar> \<le> \<bar>G\<bar> / 16777216 + 1 / 1099511627776"
    and f: "\<bar>r - H\<bar> \<le> \<bar>H\<bar> / 16777216 + 1 / 1099511627776"
  shows "\<bar>r - x\<bar> < I + 1 / 1000 + (\<bar>x\<bar> + 1) / 2097152"
    and "\<bar>r\<bar> < 2 * \<bar>x\<bar> + 3"
proof -
  have x0: "0 \<le> \<bar>x\<bar>" by simp
  have s1: "\<bar>N / 1000 - x\<bar> < 1 / 1000 + \<bar>x\<bar> / 16777216 + 1 / 1099511627776"
    using b c x0 by linarith
  have s2: "\<bar>G - x\<bar> < I + 1 / 1000 + \<bar>x\<bar> / 16777216 + 1 / 1099511627776"
    using a s1 by linarith
  have s3: "\<bar>G\<bar> < 2 * \<bar>x\<bar> + 2"
    using s2 I x0 by linarith
  have s4: "\<bar>H - G\<bar> \<le> 2 * \<bar>x\<bar> / 16777216 + 2 / 16777216 + 1 / 1099511627776"
    using e s3 by linarith
  have s5: "\<bar>H\<bar> < 3 * \<bar>x\<bar> + 3"
    using s3 s4 x0 by linarith
  have s6: "\<bar>r - H\<bar> \<le> 3 * \<bar>x\<bar> / 16777216 + 3 / 16777216 + 1 / 1099511627776"
    using f s5 by linarith
  have s7: "\<bar>r - x\<bar> \<le> \<bar>r - H\<bar> + \<bar>H - G\<bar> + \<bar>G - x\<bar>"
    by linarith
  have s8': "\<bar>r - x\<bar> < I + 1 / 1000 + \<bar>x\<bar> / 2097152 + 1 / 2097152"
    using s7 s6 s4 s2 x0 by linarith
  then show s8: "\<bar>r - x\<bar> < I + 1 / 1000 + (\<bar>x\<bar> + 1) / 2097152"
    by (simp add: add_divide_distrib)
  have "\<bar>r\<bar> \<le> \<bar>x\<bar> + \<bar>r - x\<bar>" by linarith
  with s8' I x0 show "\<bar>r\<bar> < 2 * \<bar>x\<bar> + 3" by linarith
qed

lemma round_trip_arith:
  fixes x d N Q Sr F r :: real
  assumes S: "1 \<le> Sr"
    and E1: "\<bar>d - x * 1000\<bar> \<le> \<bar>x * 1000\<bar> / 2 ^ 24 + 1 / 2 ^ 150"
    and E2: "\<bar>N - d\<bar> < 1"
    and E3: "\<bar>Q - N * Sr / 1000\<bar> < 1"
    and E4: "\<bar>F - Q\<bar> \<le> \<bar>Q\<bar> / 2 ^ 24 + 1 / 2 ^ 150"
    and E5: "\<bar>r - F / Sr\<bar> \<le> \<bar>F / Sr\<bar> / 2 ^ 24 + 1 / 2 ^ 150"
  shows "\<bar>r - x\<bar> < 1 / Sr + 1 / 1000 + (\<bar>x\<bar> + 1) / 2 ^ 21"
    and "\<bar>r\<bar> < 2 * \<bar>x\<bar> + 3"
proof -
  have Sp: "0 < Sr" using S by simp
  have I: "1 / Sr \<le> 1" using S by simp
  have v: "(1::real) / 2 ^ 150 \<le> 1 / 1099511627776" by simp
  have u: "(2::real) ^ 24 = 16777216" "(2::real) ^ 21 = 2097152" by simp_all
  have "Q / Sr - N / 1000 = (Q - N * Sr / 1000) / Sr"
    using Sp by (simp add: field_simps)
  then have "\<bar>Q / Sr - N / 1000\<bar> = \<bar>Q - N * Sr / 1000\<bar> / Sr"
    using Sp by (simp add: abs_divide)
  also have "\<dots> < 1 / Sr"
    using E3 Sp by (simp add: divide_strict_right_mono)
  finally have a: "\<bar>Q / Sr - N / 1000\<bar> < 1 / Sr" .
  have "\<bar>x * 1000\<bar> = 1000 * \<bar>x\<bar>" by (simp add: abs_mult)
  with E1 v have b: "\<bar>d - x * 1000\<bar> \<le> 1000 * \<bar>x\<bar> / 16777216 + 1 / 1099511627776"
    unfolding u by linarith
  have "F / Sr - Q / Sr = (F - Q) / Sr"
    by (simp add: diff_divide_distrib)
  then have "\<bar>F / Sr - Q / Sr\<bar> = \<bar>F - Q\<bar> / Sr"
    using Sp by (simp add: abs_divide)
  also have "\<dots> \<le> (\<bar>Q\<bar> / 2 ^ 24 + 1 / 2 ^ 150) / Sr"
    using E4 Sp by (simp add: divide_right_mono)
  also have "\<dots> = \<bar>Q\<bar> / Sr / 2 ^ 24 + (1 / 2 ^ 150) * (1 / Sr)"
    by (simp add: add_divide_distrib)
  also have "\<bar>Q\<bar> / Sr = \<bar>Q / Sr\<bar>"
    using Sp by (simp add: abs_divide)
  also have "\<bar>Q / Sr\<bar> / 2 ^ 24 + (1 / 2 ^ 150) * (1 / Sr)
      \<le> \<bar>Q / Sr\<bar> / 2 ^ 24 + (1 / 2 ^ 150) * 1"
    using I by (intro add_left_mono mult_left_mono) simp_all
  finally have "\<bar>F / Sr - Q / Sr\<bar> \<le> \<bar>Q / Sr\<bar> / 2 ^ 24 + 1 / 2 ^ 150" by simp
  with v have c: "\<bar>F / Sr - Q / Sr\<bar> \<le> \<bar>Q / Sr\<bar> / 16777216 + 1 / 1099511627776"
    unfolding u by linarith
  from E5 v have e: "\<bar>r - F / Sr\<bar> \<le> \<bar>F / Sr\<bar> / 16777216 + 1 / 1099511627776"
    unfolding u by linarith
  show "\<bar>r - x\<bar> < 1 / Sr + 1 / 1000 + (\<bar>x\<bar> + 1) / 2 ^ 21"
    unfolding u by (rule round_trip_linear(1) [OF a I b E2 c e])
  show "\<bar>r\<bar> < 2 * \<bar>x\<bar> + 3"
    by (rule round_trip_linear(2) [OF a I b E2 c e])
qed

text \<open>
  Claim C2, amended. On an axis whose steps per mm are a positive whole number \<open>S\<close>, and
  for every \<open>x\<close> whose conversion stays inside the integer types (the truncated rounded
  product of \<open>x\<close> and 1000 and \<open>S\<close> fit 64 bits, the quotient fits 32 bits), both
  conversions return a result, and converting \<open>x\<close> to steps and back gives a distance
  less than \<open>1 / S + 1 / 1000 + (\<bar>x\<bar> + 1) / 2 ^ 21\<close> away from \<open>x\<close>: one step, the
  thousandth of a mm at which the conversion cuts its input, and the rounding of the
  three floating-point operations (the product by 1000, the conversion of the steps to a
  \<^verbatim>\<open>float\<close>, the division). Nothing is stated for steps per mm with a fraction, which
  the conversion drops.
\<close>

theorem round_trip_whole_scale:
  assumes "axis < STEPPER_COUNT"
    and "steps_per_mm (stepperAxis st axis) = real_of_int S" and "0 < S"
    and "in_int64 (float_trunc (dmul b mm 1000))" and "in_int64 S"
    and "in_int32 (mmToSteps_double b mm (real_of_int S))"
  shows "\<exists>s r. stepperAxisMMToSteps b mm axis st = Some s
           \<and> stepperAxisStepsToMM s axis st = Some r
           \<and> \<bar>r - mm\<bar> < 1 / steps_per_mm (stepperAxis st axis) + 1 / 1000 + (\<bar>mm\<bar> + 1) / 2 ^ 21"
proof -
  let ?d = "dmul b mm 1000"
  let ?n = "float_trunc ?d"
  let ?q = "(?n * S) sdiv 1000"
  let ?F = "int32_to_float ?q"
  let ?r = "fdiv ?F (real_of_int S)"
  have spec: "mmToSteps_double b mm (real_of_int S) = ?q"
    by (simp add: mmToSteps_double_def float_trunc_of_int)
  from stepperAxisMMToSteps_in_range [OF assms(1), of b mm st] assms(2,4,5,6)
  have steps: "stepperAxisMMToSteps b mm axis st = Some ?q"
    by (simp add: float_trunc_of_int spec)
  have S: "1 \<le> real_of_int S" using assms(3) by simp
  have E1: "\<bar>?d - mm * 1000\<bar> \<le> \<bar>mm * 1000\<bar> / 2 ^ 24 + 1 / 2 ^ 150"
    unfolding dmul_def by (rule fl_error)
  have E2: "\<bar>real_of_int ?n - ?d\<bar> < 1" by (rule float_trunc_bound)
  have "\<bar>real_of_int ?q - real_of_int (?n * S) / 1000\<bar> < 1"
    unfolding sdiv_1000_trunc by (rule float_trunc_bound)
  then have E3: "\<bar>real_of_int ?q - real_of_int ?n * real_of_int S / 1000\<bar> < 1" by simp
  have E4: "\<bar>?F - real_of_int ?q\<bar> \<le> \<bar>real_of_int ?q\<bar> / 2 ^ 24 + 1 / 2 ^ 150"
    unfolding int32_to_float_def by (rule fl_error)
  have E5: "\<bar>?r - ?F / real_of_int S\<bar> \<le> \<bar>?F / real_of_int S\<bar> / 2 ^ 24 + 1 / 2 ^ 150"
    unfolding fdiv_def by (rule fl_error)
  note R = round_trip_arith [OF S E1 E2 E3 E4 E5]
  from assms(4) have "- 9223372036854775808 \<le> ?n \<and> ?n \<le> 9223372036854775808"
    by (simp add: in_int64_def)
  then have "- 9223372036854775808 \<le> real_of_int ?n"
    and "real_of_int ?n \<le> 9223372036854775808"
    by linarith+
  moreover have "\<bar>?d - mm * 1000\<bar> \<le> 1000 * \<bar>mm\<bar> / 16777216 + 1"
  proof -
    have "\<bar>mm * 1000\<bar> / 2 ^ 24 = 1000 * \<bar>mm\<bar> / 16777216"
      by (simp add: abs_mult)
    moreover have "(1::real) / 2 ^ 150 \<le> 1" by simp
    ultimately show ?thesis using E1 by linarith
  qed
  ultimately have "\<bar>mm\<bar> < 10000000000000000" using E2 by linarith
  also have "\<dots> < (2::real) ^ 100" by simp
  finally have mm: "\<bar>mm\<bar> < 2 ^ 100" .
  from R(2) mm have "\<bar>?r\<bar> < 2 * 2 ^ 100 + 3" by linarith
  also have "\<dots> < (2::real) ^ 128" by simp
  finally have fin: "\<bar>?r\<bar> < 2 ^ 128" .
  have inv: "stepperAxisStepsToMM ?q axis st = Some ?r"
    using assms(1,2,3) fin by (simp add: stepperAxisStepsToMM_def)
  from steps inv R(1) show ?thesis unfolding assms(2) by blast
qed

text \<open>
  At 100 steps per mm, the \<^verbatim>\<open>float\<close> nearest to 1.2345 becomes 123 steps and the
  \<^verbatim>\<open>float\<close> nearest to 1.23 again. The \<^verbatim>\<open>float\<close> 167772.171875 becomes 16777217
  steps, which the conversion to \<^verbatim>\<open>float\<close> rounds to 16777216, and 167772.15625 mm: a
  distance of 1/64 mm, more than one step and a thousandth, inside the bound.
\<close>

theorem round_trip_whole_scale_witness:
  "X_AXIS < STEPPER_COUNT
   \<and> steps_per_mm (stepperAxis machine_100 X_AXIS) = real_of_int 100
   \<and> in_int64 (float_trunc (dmul board_ex (fl Binary32 1.2345) 1000)) \<and> in_int64 100
   \<and> in_int32 (mmToSteps_double board_ex (fl Binary32 1.2345) (real_of_int 100))
   \<and> stepperAxisMMToSteps board_ex (fl Binary32 1.2345) X_AXIS machine_100 = Some 123
   \<and> stepperAxisStepsToMM 123 X_AXIS machine_100 = Some (fl Binary32 1.23)
   \<and> \<bar>fl Binary32 1.23 - fl Binary32 1.2345\<bar>
       < 1 / steps_per_mm (stepperAxis machine_100 X_AXIS) + 1 / 1000
         + (\<bar>fl Binary32 1.2345\<bar> + 1) / 2 ^ 21
   \<and> fl Binary32 (10737419 / 64) = 10737419 / 64
   \<and> stepperAxisMMToSteps board_ex (10737419 / 64) X_AXIS machine_100 = Some 16777217
   \<and> stepperAxisStepsToMM 16777217 X_AXIS machine_100 = Some (5368709 / 32)
   \<and> \<bar>5368709 / 32 - 10737419 / 64\<bar>
       < 1 / steps_per_mm (stepperAxis machine_100 X_AXIS) + 1 / 1000
         + (\<bar>10737419 / 64\<bar> + 1) / 2 ^ 21"
proof -
  have lt: "X_AXIS < STEPPER_COUNT" by (simp add: axis_defs)
  have spm: "steps_per_mm (stepperAxis machine_100 X_AXIS) = real_of_int 100"
    by (simp add: machine_100_def machine_zero_def axis_zero_def)
  have pos: "(0::int) < 100" by simp
  have mm: "fl Binary32 1.2345 = 10355737 / 8388608"
    by (simp add: fl_eval)
  have d: "dmul board_ex (10355737 / 8388608) 1000 = 5056512 / 4096"
    by (simp add: board_defs fl_eval)
  have r: "in_int64 (float_trunc (dmul board_ex (fl Binary32 1.2345) 1000))" "in_int64 100"
    "in_int32 (mmToSteps_double board_ex (fl Binary32 1.2345) (real_of_int 100))"
    unfolding mmToSteps_double_def mm d
    by (simp_all add: in_int64_def in_int32_def float_trunc_def signed_divide_int_def)
  have there: "stepperAxisMMToSteps board_ex (fl Binary32 1.2345) X_AXIS machine_100 = Some 123"
    unfolding stepperAxisMMToSteps_def spm mm d using lt
    by (simp add: int_eval float_trunc_def)
  have q: "fdiv (int32_to_float 123) (real_of_int 100) = fl Binary32 1.23"
    by (simp add: fl_eval)
  have fin: "fl Binary32 1.23 = 2579497 / 2097152"
    by (simp add: fl_eval)
  have inv: "stepperAxisStepsToMM 123 X_AXIS machine_100 = Some (fl Binary32 1.23)"
    unfolding stepperAxisStepsToMM_def spm q fin using lt by simp
  have e2: "fl Binary32 (10737419 / 64) = 10737419 / 64" by (simp add: fl_eval)
  have d2: "dmul board_ex (10737419 / 64) 1000 = 167772176"
    by (simp add: board_defs fl_eval)
  have r2: "in_int64 (float_trunc (dmul board_ex (10737419 / 64) 1000))"
    "in_int32 (mmToSteps_double board_ex (10737419 / 64) (real_of_int 100))"
    unfolding mmToSteps_double_def d2
    by (simp_all add: in_int64_def in_int32_def float_trunc_def signed_divide_int_def)
  have there2: "stepperAxisMMToSteps board_ex (10737419 / 64) X_AXIS machine_100 = Some 16777217"
    unfolding stepperAxisMMToSteps_def spm d2 using lt
    by (simp add: int_eval float_trunc_def)
  have q2: "fdiv (int32_to_float 16777217) (real_of_int 100) = 5368709 / 32"
    by (simp add: fl_eval)
  have inv2: "stepperAxisStepsToMM 16777217 X_AXIS machine_100 = Some (5368709 / 32)"
    unfolding stepperAxisStepsToMM_def spm q2 using lt by simp
  from round_trip_whole_scale [OF lt spm pos r2(1) r(2) r2(2)] obtain s2 t2 where
    "stepperAxisMMToSteps board_ex (10737419 / 64) X_AXIS machine_100 = Some s2"
    "stepperAxisStepsToMM s2 X_AXIS machine_100 = Some t2"
    "\<bar>t2 - 10737419 / 64\<bar>
       < 1 / steps_per_mm (stepperAxis machine_100 X_AXIS) + 1 / 1000
         + (\<bar>10737419 / 64\<bar> + 1) / 2 ^ 21"
    by auto
  with there2 inv2 have big: "\<bar>5368709 / 32 - 10737419 / 64\<bar>
       < 1 / steps_per_mm (stepperAxis machine_100 X_AXIS) + 1 / 1000
         + (\<bar>10737419 / 64\<bar> + 1) / 2 ^ 21"
    by simp
  from round_trip_whole_scale [OF lt spm pos r] obtain s r where
    "stepperAxisMMToSteps board_ex (fl Binary32 1.2345) X_AXIS machine_100 = Some s"
    "stepperAxisStepsToMM s X_AXIS machine_100 = Some r"
    "\<bar>r - fl Binary32 1.2345\<bar>
       < 1 / steps_per_mm (stepperAxis machine_100 X_AXIS) + 1 / 1000
         + (\<bar>fl Binary32 1.2345\<bar> + 1) / 2 ^ 21"
    by auto
  with there inv have "\<bar>fl Binary32 1.23 - fl Binary32 1.2345\<bar>
       < 1 / steps_per_mm (stepperAxis machine_100 X_AXIS) + 1 / 1000
         + (\<bar>fl Binary32 1.2345\<bar> + 1) / 2 ^ 21"
    by simp
  with lt spm r there inv e2 there2 inv2 big show ?thesis by simp
qed

text \<open>
  Claim C2 as the spec words it, with the bound \<open>1 / steps_per_mm\<close>, fails twice after
  a hard reset, for values that are \<^verbatim>\<open>float\<close>s and inside the travel limits. On Z at
  400 steps per mm with the limits 0 and 60000, 3/1024 mm become 0 steps: 2 thousandths
  times 400 is 800, less than 1000. On X at 2.5 steps per mm with the limits -125 and 125,
  10 mm become 20 steps, which are 8 mm: the multiplication uses 2 for 2.5.
\<close>

theorem round_trip_counterexample:
  "stepperAxisInit board_ex ee_ex True machine_zero \<noteq> None
   \<and> steps_per_mm (stepperAxis (the (stepperAxisInit board_ex ee_ex True machine_zero)) Z_AXIS) = 400
   \<and> min_axis_steps_limit (stepperAxis (the (stepperAxisInit board_ex ee_ex True machine_zero)) Z_AXIS) = 0
   \<and> max_axis_steps_limit (stepperAxis (the (stepperAxisInit board_ex ee_ex True machine_zero)) Z_AXIS) = 60000
   \<and> fl Binary32 (3 / 1024) = 3 / 1024
   \<and> stepperAxisMMToSteps board_ex (3 / 1024) Z_AXIS (the (stepperAxisInit board_ex ee_ex True machine_zero)) = Some 0
   \<and> stepperAxisStepsToMM 0 Z_AXIS (the (stepperAxisInit board_ex ee_ex True machine_zero)) = Some 0
   \<and> 1 / steps_per_mm (stepperAxis (the (stepperAxisInit board_ex ee_ex True machine_zero)) Z_AXIS)
       < \<bar>0 - 3 / (1024::real)\<bar>
   \<and> stepperAxisInit board_ex ee_half True machine_zero \<noteq> None
   \<and> steps_per_mm (stepperAxis (the (stepperAxisInit board_ex ee_half True machine_zero)) X_AXIS) = 2.5
   \<and> min_axis_steps_limit (stepperAxis (the (stepperAxisInit board_ex ee_half True machine_zero)) X_AXIS) = - 125
   \<and> max_axis_steps_limit (stepperAxis (the (stepperAxisInit board_ex ee_half True machine_zero)) X_AXIS) = 125
   \<and> stepperAxisMMToSteps board_ex 10 X_AXIS (the (stepperAxisInit board_ex ee_half True machine_zero)) = Some 20
   \<and> stepperAxisStepsToMM 20 X_AXIS (the (stepperAxisInit board_ex ee_half True machine_zero)) = Some 8
   \<and> 1 / steps_per_mm (stepperAxis (the (stepperAxisInit board_ex ee_half True machine_zero)) X_AXIS)
       < \<bar>8 - (10::real)\<bar>"
proof -
  note t = stepperAxisInit_hard_total [of board_ex ee_ex machine_zero]
  note t' = stepperAxisInit_hard_total [of board_ex ee_half machine_zero]
  note d = the_init [OF t]
  note d' = the_init [OF t']
  have lt: "Z_AXIS < STEPPER_COUNT" "X_AXIS < STEPPER_COUNT" by (simp_all add: axis_defs)
  have sZ: "steps_per_mm (stepperAxis (the (stepperAxisInit board_ex ee_ex True machine_zero)) Z_AXIS) = 400"
    unfolding hard_reset_loaded(3) [OF d lt(1)] ex_spm ..
  have sX: "steps_per_mm (stepperAxis (the (stepperAxisInit board_ex ee_half True machine_zero)) X_AXIS) = 2.5"
    unfolding hard_reset_loaded(3) [OF d' lt(2)] ex_spm ..
  have lenZ: "loaded_length board_ex ee_ex Z_AXIS = 60000"
    unfolding loaded_length_def ex_spm by (simp add: ee_defs axis_defs fl_eval int_eval)
  have lenX: "loaded_length board_ex ee_half X_AXIS = 250"
    unfolding loaded_length_def ex_spm by (simp add: ee_defs axis_defs fl_eval int_eval)
  have nz: "\<not> Z_HOME_MAX board_ex" by (simp add: board_defs)
  have limZ: "min_axis_steps_limit (stepperAxis (the (stepperAxisInit board_ex ee_ex True machine_zero)) Z_AXIS) = 0"
    "max_axis_steps_limit (stepperAxis (the (stepperAxisInit board_ex ee_ex True machine_zero)) Z_AXIS) = 60000"
    unfolding hard_reset_limits(3) [OF d lt(1) refl] hard_reset_limits(4) [OF d lt(1) refl nz] lenZ
    by (simp_all add: ee_defs int_eval)
  have limX: "min_axis_steps_limit (stepperAxis (the (stepperAxisInit board_ex ee_half True machine_zero)) X_AXIS) = - 125"
    "max_axis_steps_limit (stepperAxis (the (stepperAxisInit board_ex ee_half True machine_zero)) X_AXIS) = 125"
    using hard_reset_limits(1) [OF d' lt(2)] unfolding lenX
    by (simp_all add: int_eval)
  have e: "fl Binary32 (3 / 1024) = 3 / 1024" by (simp add: fl_eval)
  have Z: "stepperAxisMMToSteps board_ex (3 / 1024) Z_AXIS (the (stepperAxisInit board_ex ee_ex True machine_zero)) = Some 0"
    "stepperAxisStepsToMM 0 Z_AXIS (the (stepperAxisInit board_ex ee_ex True machine_zero)) = Some 0"
    unfolding stepperAxisMMToSteps_def stepperAxisStepsToMM_def sZ using lt
    by (simp_all add: board_defs fl_eval int_eval)
  have X: "stepperAxisMMToSteps board_ex 10 X_AXIS (the (stepperAxisInit board_ex ee_half True machine_zero)) = Some 20"
    "stepperAxisStepsToMM 20 X_AXIS (the (stepperAxisInit board_ex ee_half True machine_zero)) = Some 8"
    unfolding stepperAxisMMToSteps_def stepperAxisStepsToMM_def sX using lt
    by (simp_all add: board_defs fl_eval int_eval)
  show ?thesis
    unfolding Z X sZ sX limZ limX e using t t' by simp
qed

section \<open>Hard reset\<close>

text \<open>
  Claim C3. After a hard reset that runs to its end, the endstop polarity of every axis
  follows bit 7 of the persisted endstop mask: with the bit clear \<open>invert_endstop\<close> is
  true whatever the bit of the axis says, with the bit set it is bit \<open>i\<close> of the mask.
\<close>

theorem endstop_presence_rule:
  assumes "stepperAxisInit b ee True st = Some st'" and "i < STEPPER_COUNT"
  shows "invert_endstop (stepperAxis st' i) =
     (if bit (ENDSTOP_INVERSION ee) 7 then bit (ENDSTOP_INVERSION ee) i else True)"
  by (simp add: hard_reset_loaded(1) [OF assms])

text \<open>
  With the mask 133 (bits 7, 2 and 0) X is inverted and Y is not; with the mask 5 (bit 7
  clear) Y is inverted although its bit is clear.
\<close>

theorem endstop_presence_rule_witness:
  "stepperAxisInit board_ex ee_ex True machine_zero \<noteq> None
   \<and> stepperAxisInit board_ex ee_no_endstops True machine_zero \<noteq> None
   \<and> invert_endstop (stepperAxis (the (stepperAxisInit board_ex ee_ex True machine_zero)) X_AXIS)
   \<and> \<not> invert_endstop (stepperAxis (the (stepperAxisInit board_ex ee_ex True machine_zero)) Y_AXIS)
   \<and> invert_endstop (stepperAxis (the (stepperAxisInit board_ex ee_no_endstops True machine_zero)) Y_AXIS)"
proof -
  note d1 = the_init [OF stepperAxisInit_hard_total [of board_ex ee_ex machine_zero]]
  note d2 = the_init [OF stepperAxisInit_hard_total [of board_ex ee_no_endstops machine_zero]]
  have lt: "X_AXIS < STEPPER_COUNT" "Y_AXIS < STEPPER_COUNT" by (simp_all add: axis_defs)
  have masks: "bit (ENDSTOP_INVERSION ee_ex) 7" "bit (ENDSTOP_INVERSION ee_ex) X_AXIS"
    "\<not> bit (ENDSTOP_INVERSION ee_ex) Y_AXIS" "\<not> bit (ENDSTOP_INVERSION ee_no_endstops) 7"
    by (simp_all add: ee_defs axis_defs)
  show ?thesis
    using endstop_presence_rule [OF d1 lt(1)] endstop_presence_rule [OF d1 lt(2)]
      endstop_presence_rule [OF d2 lt(2)] masks
      stepperAxisInit_hard_total [of board_ex ee_ex machine_zero]
      stepperAxisInit_hard_total [of board_ex ee_no_endstops machine_zero]
    by simp
qed

lemma travel_limits_of_state:
  assumes "stepperAxisInit b ee True st = Some st'" and "i < STEPPER_COUNT"
    and "len = float_trunc (fmul (uint32_to_float (AXIS_LENGTHS ee i))
                                 (steps_per_mm (stepperAxis st' i)))"
    and "in_int32 len"
  shows "(i = X_AXIS \<or> i = Y_AXIS \<longrightarrow>
            max_axis_steps_limit (stepperAxis st' i) = len sdiv 2
          \<and> min_axis_steps_limit (stepperAxis st' i) = - max_axis_steps_limit (stepperAxis st' i))
       \<and> (i = A_AXIS \<or> i = B_AXIS \<longrightarrow>
            max_axis_steps_limit (stepperAxis st' i) = len
          \<and> min_axis_steps_limit (stepperAxis st' i) = - len)
       \<and> (i = Z_AXIS \<and> \<not> Z_HOME_MAX b
            \<and> in_int32 (len - uint32_to_int32 (AXIS_HOME_POSITIONS_STEPS ee i)) \<longrightarrow>
            min_axis_steps_limit (stepperAxis st' i) = 0
          \<and> max_axis_steps_limit (stepperAxis st' i) =
              len - uint32_to_int32 (AXIS_HOME_POSITIONS_STEPS ee i))"
proof -
  note spm = hard_reset_loaded(3) [OF assms(1,2)]
  have len: "loaded_length b ee i = len"
    using assms(3,4) unfolding spm loaded_length_def by (simp add: float_to_int32_in_range)
  have "0 \<le> fmul (uint32_to_float (AXIS_LENGTHS ee i)) (loaded_steps_per_mm b ee i)"
    unfolding fmul_def
    by (intro fl_nonneg mult_nonneg_nonneg uint32_to_float_nonneg loaded_steps_per_mm_nonneg)
  then have "0 \<le> len" unfolding assms(3) spm by (rule float_trunc_nonneg)
  with assms(4) have neg: "in_int32 (- len)" by (simp add: in_int32_def)
  note L = hard_reset_limits [OF assms(1,2), unfolded len]
  show ?thesis
  proof (intro conjI impI)
    assume "i = X_AXIS \<or> i = Y_AXIS"
    with L(1) show "max_axis_steps_limit (stepperAxis st' i) = len sdiv 2" by simp
    with L(1) \<open>i = X_AXIS \<or> i = Y_AXIS\<close>
    show "min_axis_steps_limit (stepperAxis st' i) = - max_axis_steps_limit (stepperAxis st' i)"
      by (simp add: int32_wrap_id sdiv_2_range assms(4))
  next
    assume "i = A_AXIS \<or> i = B_AXIS"
    with L(2) show "max_axis_steps_limit (stepperAxis st' i) = len" by simp
    from L(2) \<open>i = A_AXIS \<or> i = B_AXIS\<close> neg
    show "min_axis_steps_limit (stepperAxis st' i) = - len" by (simp add: int32_wrap_id)
  next
    assume z: "i = Z_AXIS \<and> \<not> Z_HOME_MAX b
            \<and> in_int32 (len - uint32_to_int32 (AXIS_HOME_POSITIONS_STEPS ee i))"
    with L(3) show "min_axis_steps_limit (stepperAxis st' i) = 0" by simp
    from z have "in_int32 (len - uint32_to_int32 (AXIS_HOME_POSITIONS_STEPS ee i))"
      by blast
    then have "int32_wrap (len - uint32_to_int32 (AXIS_HOME_POSITIONS_STEPS ee i))
        = len - uint32_to_int32 (AXIS_HOME_POSITIONS_STEPS ee i)"
      by (rule int32_wrap_id)
    with z L(4) show "max_axis_steps_limit (stepperAxis st' i) =
              len - uint32_to_int32 (AXIS_HOME_POSITIONS_STEPS ee i)"
      by simp
  qed
qed

text \<open>
  Claim C4, amended. The code does not round the product of the axis length and the steps
  per mm to the nearest integer. The product is a product of \<^verbatim>\<open>float\<close>s, rounded to 24
  bits, and the cast to \<^verbatim>\<open>int32_t\<close> cuts its fraction off. A hard reset always returns.
  With \<open>len\<close> the truncated \<^verbatim>\<open>float\<close> product, and where \<open>len\<close> fits an
  \<^verbatim>\<open>int32_t\<close>, it leaves \<open>max = len / 2\<close> (the division of C) and \<open>min = - max\<close> for X
  and Y, \<open>max = len\<close> and \<open>min = - len\<close> for A and B, and, on a board built without
  \<^verbatim>\<open>Z_HOME_MAX\<close> and where \<open>len - home\<close> fits an \<^verbatim>\<open>int32_t\<close> as well, \<open>min = 0\<close> and
  \<open>max = len - home\<close> for Z.
\<close>

theorem travel_limits_truncated:
  assumes "i < STEPPER_COUNT"
  shows "\<exists>st' len. stepperAxisInit b ee True st = Some st'
     \<and> len = float_trunc (fmul (uint32_to_float (AXIS_LENGTHS ee i))
                                (steps_per_mm (stepperAxis st' i)))
     \<and> (in_int32 len \<longrightarrow>
          (i = X_AXIS \<or> i = Y_AXIS \<longrightarrow>
             max_axis_steps_limit (stepperAxis st' i) = len sdiv 2
           \<and> min_axis_steps_limit (stepperAxis st' i) = - max_axis_steps_limit (stepperAxis st' i))
        \<and> (i = A_AXIS \<or> i = B_AXIS \<longrightarrow>
             max_axis_steps_limit (stepperAxis st' i) = len
           \<and> min_axis_steps_limit (stepperAxis st' i) = - len)
        \<and> (i = Z_AXIS \<and> \<not> Z_HOME_MAX b
             \<and> in_int32 (len - uint32_to_int32 (AXIS_HOME_POSITIONS_STEPS ee i)) \<longrightarrow>
             min_axis_steps_limit (stepperAxis st' i) = 0
           \<and> max_axis_steps_limit (stepperAxis st' i) =
               len - uint32_to_int32 (AXIS_HOME_POSITIONS_STEPS ee i)))"
proof -
  from stepperAxisInit_hard_total [of b ee st] obtain st' where
    d: "stepperAxisInit b ee True st = Some st'" by blast
  from travel_limits_of_state [OF d assms refl] d show ?thesis by blast
qed

text \<open>
  The examples of the spec: 88 steps per mm and 200 mm on X give 8800 and -8800;
  400 steps per mm and 150 mm on Z give 0 and 60000. With 94139704 millionths of a step
  per mm and 816 mm the \<^verbatim>\<open>float\<close> product is 76818 and the X limit is 38409.
\<close>

theorem travel_limits_truncated_witness:
  "X_AXIS < STEPPER_COUNT \<and> Z_AXIS < STEPPER_COUNT \<and> A_AXIS < STEPPER_COUNT
   \<and> in_int32 (float_trunc (fmul (uint32_to_float (AXIS_LENGTHS ee_ex X_AXIS))
        (steps_per_mm (stepperAxis (the (stepperAxisInit board_ex ee_ex True machine_zero)) X_AXIS))))
   \<and> max_axis_steps_limit (stepperAxis (the (stepperAxisInit board_ex ee_ex True machine_zero)) X_AXIS) = 8800
   \<and> min_axis_steps_limit (stepperAxis (the (stepperAxisInit board_ex ee_ex True machine_zero)) X_AXIS) = - 8800
   \<and> max_axis_steps_limit (stepperAxis (the (stepperAxisInit board_ex ee_ex True machine_zero)) Z_AXIS) = 60000
   \<and> min_axis_steps_limit (stepperAxis (the (stepperAxisInit board_ex ee_ex True machine_zero)) Z_AXIS) = 0
   \<and> max_axis_steps_limit (stepperAxis (the (stepperAxisInit board_ex ee_ex True machine_zero)) A_AXIS) = 9627500
   \<and> min_axis_steps_limit (stepperAxis (the (stepperAxisInit board_ex ee_ex True machine_zero)) A_AXIS) = - 9627500
   \<and> max_axis_steps_limit (stepperAxis (the (stepperAxisInit board_ex ee_belt True machine_zero)) X_AXIS) = 38409"
proof -
  have lt: "X_AXIS < STEPPER_COUNT" "Z_AXIS < STEPPER_COUNT" "A_AXIS < STEPPER_COUNT"
    by (simp_all add: axis_defs)
  have home: "uint32_to_int32 (AXIS_HOME_POSITIONS_STEPS ee_ex Z_AXIS) = 0"
    "\<not> Z_HOME_MAX board_ex"
    by (simp_all add: ee_defs board_defs uint32_to_int32_def)
  have r: "in_int32 17600" "in_int32 60000" "in_int32 9627500" "in_int32 76818"
    by (simp_all add: in_int32_def)
  have ax: "X_AXIS \<noteq> Z_AXIS" "X_AXIS \<noteq> A_AXIS" "X_AXIS \<noteq> B_AXIS" "Z_AXIS \<noteq> X_AXIS"
    "Z_AXIS \<noteq> Y_AXIS" "Z_AXIS \<noteq> A_AXIS" "Z_AXIS \<noteq> B_AXIS" "A_AXIS \<noteq> X_AXIS" "A_AXIS \<noteq> Y_AXIS"
    "A_AXIS \<noteq> Z_AXIS"
    by (simp_all add: axis_defs)
  have sd: "(17600::int) sdiv 2 = 8800" "(76818::int) sdiv 2 = 38409"
    by (simp_all add: signed_divide_int_def)
  have len: "float_trunc (fmul (uint32_to_float (AXIS_LENGTHS ee_ex X_AXIS)) 88) = 17600"
    "float_trunc (fmul (uint32_to_float (AXIS_LENGTHS ee_ex Z_AXIS)) 400) = 60000"
    "float_trunc (fmul (uint32_to_float (AXIS_LENGTHS ee_ex A_AXIS)) (fl Binary32 96.275)) = 9627500"
    "float_trunc (fmul (uint32_to_float (AXIS_LENGTHS ee_belt X_AXIS)) (fl Binary32 94.139704)) = 76818"
    by (simp_all add: ee_defs axis_defs fl_eval)
  from travel_limits_truncated [OF lt(1), of board_ex ee_ex machine_zero] obtain s1 where
    s1: "stepperAxisInit board_ex ee_ex True machine_zero = Some s1"
    and c1: "in_int32 (float_trunc (fmul (uint32_to_float (AXIS_LENGTHS ee_ex X_AXIS))
                (steps_per_mm (stepperAxis s1 X_AXIS)))) \<longrightarrow>
        (X_AXIS = X_AXIS \<or> X_AXIS = Y_AXIS \<longrightarrow>
           max_axis_steps_limit (stepperAxis s1 X_AXIS)
             = float_trunc (fmul (uint32_to_float (AXIS_LENGTHS ee_ex X_AXIS))
                (steps_per_mm (stepperAxis s1 X_AXIS))) sdiv 2
         \<and> min_axis_steps_limit (stepperAxis s1 X_AXIS) = - max_axis_steps_limit (stepperAxis s1 X_AXIS))"
    by blast
  from travel_limits_truncated [OF lt(2), of board_ex ee_ex machine_zero] s1 have
    c2: "in_int32 (float_trunc (fmul (uint32_to_float (AXIS_LENGTHS ee_ex Z_AXIS))
                (steps_per_mm (stepperAxis s1 Z_AXIS)))) \<longrightarrow>
        (Z_AXIS = Z_AXIS \<and> \<not> Z_HOME_MAX board_ex
           \<and> in_int32 (float_trunc (fmul (uint32_to_float (AXIS_LENGTHS ee_ex Z_AXIS))
                (steps_per_mm (stepperAxis s1 Z_AXIS)))
                - uint32_to_int32 (AXIS_HOME_POSITIONS_STEPS ee_ex Z_AXIS)) \<longrightarrow>
           min_axis_steps_limit (stepperAxis s1 Z_AXIS) = 0
         \<and> max_axis_steps_limit (stepperAxis s1 Z_AXIS)
             = float_trunc (fmul (uint32_to_float (AXIS_LENGTHS ee_ex Z_AXIS))
                (steps_per_mm (stepperAxis s1 Z_AXIS)))
               - uint32_to_int32 (AXIS_HOME_POSITIONS_STEPS ee_ex Z_AXIS))"
    by auto
  from travel_limits_truncated [OF lt(3), of board_ex ee_ex machine_zero] s1 have
    c3: "in_int32 (float_trunc (fmul (uint32_to_float (AXIS_LENGTHS ee_ex A_AXIS))
                (steps_per_mm (stepperAxis s1 A_AXIS)))) \<longrightarrow>
        (A_AXIS = A_AXIS \<or> A_AXIS = B_AXIS \<longrightarrow>
           max_axis_steps_limit (stepperAxis s1 A_AXIS)
             = float_trunc (fmul (uint32_to_float (AXIS_LENGTHS ee_ex A_AXIS))
                (steps_per_mm (stepperAxis s1 A_AXIS)))
         \<and> min_axis_steps_limit (stepperAxis s1 A_AXIS)
             = - float_trunc (fmul (uint32_to_float (AXIS_LENGTHS ee_ex A_AXIS))
                (steps_per_mm (stepperAxis s1 A_AXIS))))"
    by auto
  from travel_limits_truncated [OF lt(1), of board_ex ee_belt machine_zero] obtain s4 where
    s4: "stepperAxisInit board_ex ee_belt True machine_zero = Some s4"
    and c4: "in_int32 (float_trunc (fmul (uint32_to_float (AXIS_LENGTHS ee_belt X_AXIS))
                (steps_per_mm (stepperAxis s4 X_AXIS)))) \<longrightarrow>
        (X_AXIS = X_AXIS \<or> X_AXIS = Y_AXIS \<longrightarrow>
           max_axis_steps_limit (stepperAxis s4 X_AXIS)
             = float_trunc (fmul (uint32_to_float (AXIS_LENGTHS ee_belt X_AXIS))
                (steps_per_mm (stepperAxis s4 X_AXIS))) sdiv 2
         \<and> min_axis_steps_limit (stepperAxis s4 X_AXIS) = - max_axis_steps_limit (stepperAxis s4 X_AXIS))"
    by blast
  note spm = hard_reset_loaded(3) [OF s1 lt(1)] hard_reset_loaded(3) [OF s1 lt(2)]
    hard_reset_loaded(3) [OF s1 lt(3)] hard_reset_loaded(3) [OF s4 lt(1)]
  have e: "the (stepperAxisInit board_ex ee_ex True machine_zero) = s1"
    "the (stepperAxisInit board_ex ee_belt True machine_zero) = s4"
    using s1 s4 by simp_all
  from c1 c2 c3 c4 lt show ?thesis
    unfolding e spm ex_spm len by (simp add: home sd r)
qed

text \<open>
  Claim C4 as the spec words it fails: with 1.75 steps per mm and a length of 1 mm the A
  axis gets the limit 1, where rounding the product gives 2.
\<close>

theorem travel_limits_rounded_counterexample:
  "stepperAxisInit board_ex ee_fraction True machine_zero \<noteq> None
   \<and> max_axis_steps_limit (stepperAxis (the (stepperAxisInit board_ex ee_fraction True machine_zero)) A_AXIS) = 1
   \<and> round (real (unat (AXIS_LENGTHS ee_fraction A_AXIS))
        * steps_per_mm (stepperAxis (the (stepperAxisInit board_ex ee_fraction True machine_zero)) A_AXIS)) = 2"
proof -
  note d = the_init [OF stepperAxisInit_hard_total [of board_ex ee_fraction machine_zero]]
  have lt: "A_AXIS < STEPPER_COUNT" by (simp add: axis_defs)
  have len: "loaded_length board_ex ee_fraction A_AXIS = 1"
    unfolding loaded_length_def ex_spm
    by (simp add: ee_defs axis_defs fl_eval int_eval)
  have "round (real (unat (AXIS_LENGTHS ee_fraction A_AXIS)) * (1.75::real)) = 2"
    by (simp add: ee_defs round_def)
  with hard_reset_limits(2) [OF d lt] stepperAxisInit_hard_total [of board_ex ee_fraction machine_zero]
  show ?thesis
    unfolding hard_reset_loaded(3) [OF d lt] ex_spm len by simp
qed

lemma limits_of_state:
  assumes "stepperAxisInit b ee True st = Some st'" and "i < STEPPER_COUNT"
  shows "((i = X_AXIS \<or> i = Y_AXIS \<or> i = A_AXIS \<or> i = B_AXIS)
          \<and> in_int32 (float_trunc (fmul (uint32_to_float (AXIS_LENGTHS ee i))
                                         (steps_per_mm (stepperAxis st' i)))) \<longrightarrow>
            min_axis_steps_limit (stepperAxis st' i) \<le> 0
          \<and> 0 \<le> max_axis_steps_limit (stepperAxis st' i))
       \<and> (i = Z_AXIS \<longrightarrow> min_axis_steps_limit (stepperAxis st' i) = 0)"
proof (intro conjI impI)
  assume a: "(i = X_AXIS \<or> i = Y_AXIS \<or> i = A_AXIS \<or> i = B_AXIS)
          \<and> in_int32 (float_trunc (fmul (uint32_to_float (AXIS_LENGTHS ee i))
                                         (steps_per_mm (stepperAxis st' i))))"
  let ?len = "float_trunc (fmul (uint32_to_float (AXIS_LENGTHS ee i))
                                         (steps_per_mm (stepperAxis st' i)))"
  note spm = hard_reset_loaded(3) [OF assms]
  from a have r: "in_int32 ?len" by blast
  then have len: "loaded_length b ee i = ?len"
    unfolding spm loaded_length_def by (simp add: float_to_int32_in_range)
  have "0 \<le> fmul (uint32_to_float (AXIS_LENGTHS ee i)) (loaded_steps_per_mm b ee i)"
    unfolding fmul_def
    by (intro fl_nonneg mult_nonneg_nonneg uint32_to_float_nonneg loaded_steps_per_mm_nonneg)
  then have nn: "0 \<le> ?len" unfolding spm by (rule float_trunc_nonneg)
  with r have neg: "in_int32 (- ?len)" by (simp add: in_int32_def)
  note L = hard_reset_limits(1,2) [OF assms, unfolded len]
  from a consider "i = X_AXIS \<or> i = Y_AXIS" | "i = A_AXIS \<or> i = B_AXIS" by blast
  then have "min_axis_steps_limit (stepperAxis st' i) \<le> 0
      \<and> 0 \<le> max_axis_steps_limit (stepperAxis st' i)"
  proof cases
    case 1
    from L(1) [OF 1] sdiv_2_nonneg [OF nn] show ?thesis
      by (simp add: int32_wrap_id sdiv_2_range r)
  next
    case 2
    from L(2) [OF 2] nn show ?thesis
      by (simp add: int32_wrap_id neg)
  qed
  then show "min_axis_steps_limit (stepperAxis st' i) \<le> 0"
    and "0 \<le> max_axis_steps_limit (stepperAxis st' i)" by simp_all
next
  assume "i = Z_AXIS"
  then show "min_axis_steps_limit (stepperAxis st' i) = 0"
    by (rule hard_reset_limits(3) [OF assms])
qed

text \<open>
  Claim C6, amended. A hard reset always returns. Where the truncated \<^verbatim>\<open>float\<close> product
  of the axis length and the steps per mm fits an \<^verbatim>\<open>int32_t\<close>, \<open>min \<le> 0 \<le> max\<close> holds
  for the limits of X, Y, A and B. The lower limit of Z is 0 in every case.
\<close>

theorem limits_enclose_zero:
  assumes "i < STEPPER_COUNT"
  shows "\<exists>st'. stepperAxisInit b ee True st = Some st'
     \<and> ((i = X_AXIS \<or> i = Y_AXIS \<or> i = A_AXIS \<or> i = B_AXIS)
          \<and> in_int32 (float_trunc (fmul (uint32_to_float (AXIS_LENGTHS ee i))
                                         (steps_per_mm (stepperAxis st' i)))) \<longrightarrow>
            min_axis_steps_limit (stepperAxis st' i) \<le> 0
          \<and> 0 \<le> max_axis_steps_limit (stepperAxis st' i))
     \<and> (i = Z_AXIS \<longrightarrow> min_axis_steps_limit (stepperAxis st' i) = 0)"
proof -
  from stepperAxisInit_hard_total [of b ee st] obtain st' where
    d: "stepperAxisInit b ee True st = Some st'" by blast
  from limits_of_state [OF d assms] d show ?thesis by blast
qed

text \<open>
  With 96.275 steps per mm and 100000 mm the product fits, and the limits of B enclose
  zero; the lower limit of Z is 0.
\<close>

theorem limits_enclose_zero_witness:
  "B_AXIS < STEPPER_COUNT \<and> Z_AXIS < STEPPER_COUNT
   \<and> in_int32 (float_trunc (fmul (uint32_to_float (AXIS_LENGTHS ee_ex B_AXIS))
        (steps_per_mm (stepperAxis (the (stepperAxisInit board_ex ee_ex True machine_busy)) B_AXIS))))
   \<and> min_axis_steps_limit (stepperAxis (the (stepperAxisInit board_ex ee_ex True machine_busy)) B_AXIS) \<le> 0
   \<and> 0 \<le> max_axis_steps_limit (stepperAxis (the (stepperAxisInit board_ex ee_ex True machine_busy)) B_AXIS)
   \<and> min_axis_steps_limit (stepperAxis (the (stepperAxisInit board_ex ee_ex True machine_busy)) Z_AXIS) = 0"
proof -
  have lt: "B_AXIS < STEPPER_COUNT" "Z_AXIS < STEPPER_COUNT"
    by (simp_all add: axis_defs)
  from limits_enclose_zero [OF lt(1), of board_ex ee_ex machine_busy] obtain s where
    s: "stepperAxisInit board_ex ee_ex True machine_busy = Some s"
    and c: "(B_AXIS = X_AXIS \<or> B_AXIS = Y_AXIS \<or> B_AXIS = A_AXIS \<or> B_AXIS = B_AXIS)
          \<and> in_int32 (float_trunc (fmul (uint32_to_float (AXIS_LENGTHS ee_ex B_AXIS))
                                         (steps_per_mm (stepperAxis s B_AXIS)))) \<longrightarrow>
            min_axis_steps_limit (stepperAxis s B_AXIS) \<le> 0
          \<and> 0 \<le> max_axis_steps_limit (stepperAxis s B_AXIS)"
    by blast
  from limits_enclose_zero [OF lt(2), of board_ex ee_ex machine_busy] s
  have z: "min_axis_steps_limit (stepperAxis s Z_AXIS) = 0" by auto
  have r: "in_int32 (float_trunc (fmul (uint32_to_float (AXIS_LENGTHS ee_ex B_AXIS))
        (steps_per_mm (stepperAxis s B_AXIS))))"
    unfolding hard_reset_loaded(3) [OF s lt(1)]
    by (simp add: loaded_defs board_defs ee_defs axis_defs fl_eval in_int32_def)
  have e: "the (stepperAxisInit board_ex ee_ex True machine_busy) = s"
    using s by simp
  from c r z lt show ?thesis unfolding e by simp
qed

text \<open>
  Claim C6 as the spec words it fails where the product does not fit an \<^verbatim>\<open>int32_t\<close>.
  With 1000 steps per mm and a length of 3000000 mm the product is 3000000000. On the AVR
  board, whose conversion returns the most negative \<^verbatim>\<open>int32_t\<close> for it, X gets the upper
  limit -1073741824 and the lower limit 1073741824, and A gets -2147483648 for both limits.
\<close>

theorem limits_overflow_counterexample:
  "stepperAxisInit board_ex ee_long True machine_zero \<noteq> None
   \<and> max_axis_steps_limit (stepperAxis (the (stepperAxisInit board_ex ee_long True machine_zero)) X_AXIS)
       = - 1073741824
   \<and> min_axis_steps_limit (stepperAxis (the (stepperAxisInit board_ex ee_long True machine_zero)) X_AXIS)
       = 1073741824
   \<and> max_axis_steps_limit (stepperAxis (the (stepperAxisInit board_ex ee_long True machine_zero)) A_AXIS)
       = - 2147483648
   \<and> min_axis_steps_limit (stepperAxis (the (stepperAxisInit board_ex ee_long True machine_zero)) A_AXIS)
       = - 2147483648"
proof -
  note t = stepperAxisInit_hard_total [of board_ex ee_long machine_zero]
  note d = the_init [OF t]
  have lt: "X_AXIS < STEPPER_COUNT" "A_AXIS < STEPPER_COUNT" by (simp_all add: axis_defs)
  have len: "loaded_length board_ex ee_long X_AXIS = - 2147483648"
    "loaded_length board_ex ee_long A_AXIS = - 2147483648"
    unfolding loaded_length_def ex_spm
    by (simp_all add: board_defs ee_defs axis_defs fl_eval int_eval)
  have w: "(- 2147483648::int) sdiv 2 = - 1073741824" "int32_wrap 1073741824 = 1073741824"
    "int32_wrap 2147483648 = - 2147483648"
    by (simp_all add: int_eval)
  from hard_reset_limits(1) [OF d lt(1)] hard_reset_limits(2) [OF d lt(2)] t
  show ?thesis unfolding len by (simp add: w)
qed

text \<open>
  Claim C7. A hard reset always returns a state: the division of line 104 is never a
  division by zero. With \<open>f\<close> the \<^verbatim>\<open>int32_t\<close> that the cast of line 103 makes of the
  \<^verbatim>\<open>float\<close> product of the steps per mm and the maximum feedrate, \<open>min_interval\<close> is 500
  when \<open>f\<close> is zero and \<open>1000000 / f\<close> otherwise. Where the truncated product \<open>t\<close> fits
  an \<^verbatim>\<open>int32_t\<close>, \<open>f\<close> is \<open>t\<close>. Stated with \<open>t\<close> itself, \<open>min_interval\<close> is 500 when
  \<open>t\<close> is zero and \<open>1000000 / t\<close> otherwise, where \<open>t\<close> fits and also where it does not
  fit and the cast returns a value of a magnitude above 1000000 (both quotients are zero).
\<close>

theorem min_interval_fallback:
  assumes "i < STEPPER_COUNT"
  shows "\<exists>st' t f. stepperAxisInit b ee True st = Some st'
     \<and> t = float_trunc (fmul (steps_per_mm (stepperAxis st' i))
                              (FPTOF b (max_feedrate (stepperAxis st' i))))
     \<and> f = float_to_int32 b (fmul (steps_per_mm (stepperAxis st' i))
                                  (FPTOF b (max_feedrate (stepperAxis st' i))))
     \<and> min_interval (stepperAxis st' i) = (if f = 0 then 500 else 1000000 sdiv f)
     \<and> (in_int32 t \<longrightarrow> f = t)
     \<and> (in_int32 t \<or> 1000000 < \<bar>f\<bar>
        \<longrightarrow> min_interval (stepperAxis st' i) = (if t = 0 then 500 else 1000000 sdiv t))"
proof -
  from stepperAxisInit_hard_total [of b ee st] obtain st' where
    d: "stepperAxisInit b ee True st = Some st'" by blast
  note F = hard_reset_loaded(3,4,5) [OF d assms]
  let ?p = "fmul (steps_per_mm (stepperAxis st' i)) (FPTOF b (max_feedrate (stepperAxis st' i)))"
  have f: "float_to_int32 b ?p = loaded_f b ee i"
    unfolding F loaded_f_def ..
  have m: "min_interval (stepperAxis st' i)
      = (if float_to_int32 b ?p = 0 then 500 else 1000000 sdiv float_to_int32 b ?p)"
    using F(3) unfolding f by simp
  have r: "in_int32 (float_trunc ?p) \<longrightarrow> float_to_int32 b ?p = float_trunc ?p"
    by (simp add: float_to_int32_in_range)
  have o: "min_interval (stepperAxis st' i)
      = (if float_trunc ?p = 0 then 500 else 1000000 sdiv float_trunc ?p)"
    if "in_int32 (float_trunc ?p) \<or> 1000000 < \<bar>float_to_int32 b ?p\<bar>"
  proof (cases "in_int32 (float_trunc ?p)")
    case True
    with m r show ?thesis by simp
  next
    case False
    with that have big: "1000000 < \<bar>float_to_int32 b ?p\<bar>" by simp
    from False have big': "1000000 < \<bar>float_trunc ?p\<bar>" by (rule beyond_int32)
    from big have "float_to_int32 b ?p \<noteq> 0" by auto
    moreover from big' have "float_trunc ?p \<noteq> 0" by auto
    ultimately show ?thesis
      unfolding m using sdiv_beyond [OF big] sdiv_beyond [OF big'] by simp
  qed
  from d m r o show ?thesis by blast
qed

text \<open>
  88 steps per mm at 300 mm/s give 26400 steps per second and an interval of 37. 400 steps
  per mm at 141 mm per minute give a \<^verbatim>\<open>float\<close> product below 940, truncated to 939, and
  an interval of 1064. With a feedrate of zero the interval is 500. With a feedrate of
  4000000000 mm per minute the product, 26666668032, does not fit; the cast of the AVR
  board returns -2147483648 and the interval is 0.
\<close>

theorem min_interval_fallback_witness:
  "X_AXIS < STEPPER_COUNT \<and> Z_AXIS < STEPPER_COUNT
   \<and> in_int32 (float_trunc (fmul
        (steps_per_mm (stepperAxis (the (stepperAxisInit board_ex ee_ex True machine_zero)) X_AXIS))
        (FPTOF board_ex
          (max_feedrate (stepperAxis (the (stepperAxisInit board_ex ee_ex True machine_zero)) X_AXIS)))))
   \<and> min_interval (stepperAxis (the (stepperAxisInit board_ex ee_ex True machine_zero)) X_AXIS) = 37
   \<and> min_interval (stepperAxis (the (stepperAxisInit board_ex ee_slow True machine_zero)) Z_AXIS) = 1064
   \<and> min_interval (stepperAxis (the (stepperAxisInit board_ex ee_stalled True machine_zero)) X_AXIS) = 500
   \<and> 1000000 < \<bar>float_to_int32 board_ex (fmul
        (steps_per_mm (stepperAxis (the (stepperAxisInit board_ex ee_fast True machine_zero)) Z_AXIS))
        (FPTOF board_ex
          (max_feedrate (stepperAxis (the (stepperAxisInit board_ex ee_fast True machine_zero)) Z_AXIS))))\<bar>
   \<and> min_interval (stepperAxis (the (stepperAxisInit board_ex ee_fast True machine_zero)) Z_AXIS) = 0"
proof -
  have lt: "X_AXIS < STEPPER_COUNT" "Z_AXIS < STEPPER_COUNT" by (simp_all add: axis_defs)
  have tr: "float_trunc (fmul (loaded_steps_per_mm board_ex ee_ex X_AXIS)
        (FPTOF board_ex (loaded_max_feedrate board_ex ee_ex X_AXIS))) = 26400"
    "float_trunc (fmul (loaded_steps_per_mm board_ex ee_slow Z_AXIS)
        (FPTOF board_ex (loaded_max_feedrate board_ex ee_slow Z_AXIS))) = 939"
    "float_trunc (fmul (loaded_steps_per_mm board_ex ee_stalled X_AXIS)
        (FPTOF board_ex (loaded_max_feedrate board_ex ee_stalled X_AXIS))) = 0"
    "float_trunc (fmul (loaded_steps_per_mm board_ex ee_fast Z_AXIS)
        (FPTOF board_ex (loaded_max_feedrate board_ex ee_fast Z_AXIS))) = 26666668032"
    unfolding ex_spm
    by (simp_all add: loaded_max_feedrate_def board_defs ee_defs axis_defs fl_eval)
  have val: "float_to_int32 board_ex (fmul (loaded_steps_per_mm board_ex ee_fast Z_AXIS)
        (FPTOF board_ex (loaded_max_feedrate board_ex ee_fast Z_AXIS))) = - 2147483648"
    unfolding float_to_int32_def tr by (simp add: board_defs in_int32_def int32_wrap_def)
  have r: "in_int32 26400" "in_int32 939" "in_int32 0"
    by (simp_all add: in_int32_def)
  have sd: "(1000000::int) sdiv 26400 = 37" "(1000000::int) sdiv 939 = 1064"
    "(1000000::int) sdiv 26666668032 = 0"
    by (simp_all add: signed_divide_int_def)
  from min_interval_fallback [OF lt(1), of board_ex ee_ex machine_zero] obtain s1 where
    s1: "stepperAxisInit board_ex ee_ex True machine_zero = Some s1"
      "in_int32 (float_trunc (fmul (steps_per_mm (stepperAxis s1 X_AXIS))
              (FPTOF board_ex (max_feedrate (stepperAxis s1 X_AXIS)))))
       \<or> 1000000 < \<bar>float_to_int32 board_ex (fmul (steps_per_mm (stepperAxis s1 X_AXIS))
              (FPTOF board_ex (max_feedrate (stepperAxis s1 X_AXIS))))\<bar>
       \<longrightarrow> min_interval (stepperAxis s1 X_AXIS) =
        (if float_trunc (fmul (steps_per_mm (stepperAxis s1 X_AXIS))
              (FPTOF board_ex (max_feedrate (stepperAxis s1 X_AXIS)))) = 0 then 500
         else 1000000 sdiv float_trunc (fmul (steps_per_mm (stepperAxis s1 X_AXIS))
              (FPTOF board_ex (max_feedrate (stepperAxis s1 X_AXIS)))))"
    by auto
  from min_interval_fallback [OF lt(2), of board_ex ee_slow machine_zero] obtain s2 where
    s2: "stepperAxisInit board_ex ee_slow True machine_zero = Some s2"
      "in_int32 (float_trunc (fmul (steps_per_mm (stepperAxis s2 Z_AXIS))
              (FPTOF board_ex (max_feedrate (stepperAxis s2 Z_AXIS)))))
       \<or> 1000000 < \<bar>float_to_int32 board_ex (fmul (steps_per_mm (stepperAxis s2 Z_AXIS))
              (FPTOF board_ex (max_feedrate (stepperAxis s2 Z_AXIS))))\<bar>
       \<longrightarrow> min_interval (stepperAxis s2 Z_AXIS) =
        (if float_trunc (fmul (steps_per_mm (stepperAxis s2 Z_AXIS))
              (FPTOF board_ex (max_feedrate (stepperAxis s2 Z_AXIS)))) = 0 then 500
         else 1000000 sdiv float_trunc (fmul (steps_per_mm (stepperAxis s2 Z_AXIS))
              (FPTOF board_ex (max_feedrate (stepperAxis s2 Z_AXIS)))))"
    by auto
  from min_interval_fallback [OF lt(1), of board_ex ee_stalled machine_zero] obtain s3 where
    s3: "stepperAxisInit board_ex ee_stalled True machine_zero = Some s3"
      "in_int32 (float_trunc (fmul (steps_per_mm (stepperAxis s3 X_AXIS))
              (FPTOF board_ex (max_feedrate (stepperAxis s3 X_AXIS)))))
       \<or> 1000000 < \<bar>float_to_int32 board_ex (fmul (steps_per_mm (stepperAxis s3 X_AXIS))
              (FPTOF board_ex (max_feedrate (stepperAxis s3 X_AXIS))))\<bar>
       \<longrightarrow> min_interval (stepperAxis s3 X_AXIS) =
        (if float_trunc (fmul (steps_per_mm (stepperAxis s3 X_AXIS))
              (FPTOF board_ex (max_feedrate (stepperAxis s3 X_AXIS)))) = 0 then 500
         else 1000000 sdiv float_trunc (fmul (steps_per_mm (stepperAxis s3 X_AXIS))
              (FPTOF board_ex (max_feedrate (stepperAxis s3 X_AXIS)))))"
    by auto
  from min_interval_fallback [OF lt(2), of board_ex ee_fast machine_zero] obtain s4 where
    s4: "stepperAxisInit board_ex ee_fast True machine_zero = Some s4"
      "in_int32 (float_trunc (fmul (steps_per_mm (stepperAxis s4 Z_AXIS))
              (FPTOF board_ex (max_feedrate (stepperAxis s4 Z_AXIS)))))
       \<or> 1000000 < \<bar>float_to_int32 board_ex (fmul (steps_per_mm (stepperAxis s4 Z_AXIS))
              (FPTOF board_ex (max_feedrate (stepperAxis s4 Z_AXIS))))\<bar>
       \<longrightarrow> min_interval (stepperAxis s4 Z_AXIS) =
        (if float_trunc (fmul (steps_per_mm (stepperAxis s4 Z_AXIS))
              (FPTOF board_ex (max_feedrate (stepperAxis s4 Z_AXIS)))) = 0 then 500
         else 1000000 sdiv float_trunc (fmul (steps_per_mm (stepperAxis s4 Z_AXIS))
              (FPTOF board_ex (max_feedrate (stepperAxis s4 Z_AXIS)))))"
    by auto
  have r1: "in_int32 (float_trunc (fmul (steps_per_mm (stepperAxis s1 X_AXIS))
              (FPTOF board_ex (max_feedrate (stepperAxis s1 X_AXIS)))))"
    unfolding hard_reset_loaded(3,4) [OF s1(1) lt(1)] tr by (rule r)
  have "min_interval (stepperAxis s1 X_AXIS) = 37"
    using s1(2) unfolding hard_reset_loaded(3,4) [OF s1(1) lt(1)] tr by (simp add: sd r)
  moreover have "min_interval (stepperAxis s2 Z_AXIS) = 1064"
    using s2(2) unfolding hard_reset_loaded(3,4) [OF s2(1) lt(2)] tr by (simp add: sd r)
  moreover have "min_interval (stepperAxis s3 X_AXIS) = 500"
    using s3(2) unfolding hard_reset_loaded(3,4) [OF s3(1) lt(1)] tr by (simp add: r)
  moreover have b4: "1000000 < \<bar>float_to_int32 board_ex (fmul (steps_per_mm (stepperAxis s4 Z_AXIS))
              (FPTOF board_ex (max_feedrate (stepperAxis s4 Z_AXIS))))\<bar>"
    unfolding hard_reset_loaded(3,4) [OF s4(1) lt(2)] val by simp
  moreover have "min_interval (stepperAxis s4 Z_AXIS) = 0"
    using s4(2) b4 unfolding hard_reset_loaded(3,4) [OF s4(1) lt(2)] tr val by (simp add: sd)
  ultimately show ?thesis using lt r1 by (simp add: s1(1) s2(1) s3(1) s4(1))
qed

section \<open>Soft reset\<close>

text \<open>
  Claim C5. A soft reset always runs to its end. It leaves the steps per mm, the maximum
  feedrate and both travel limits of every axis and all of \<open>dda_position\<close> as they were,
  clears \<open>axis_homing\<close> of every axis, and sets the counter, direction, stepper direction,
  master flag and the three step counts of every axis's dda to 0, 1, false, false, 0, 0, 0.
\<close>

theorem soft_reset_frame:
  assumes "i < STEPPER_COUNT"
  shows "\<exists>st'. stepperAxisInit b ee False st = Some st'
     \<and> steps_per_mm (stepperAxis st' i) = steps_per_mm (stepperAxis st i)
     \<and> max_feedrate (stepperAxis st' i) = max_feedrate (stepperAxis st i)
     \<and> min_axis_steps_limit (stepperAxis st' i) = min_axis_steps_limit (stepperAxis st i)
     \<and> max_axis_steps_limit (stepperAxis st' i) = max_axis_steps_limit (stepperAxis st i)
     \<and> dda_position st' = dda_position st
     \<and> axis_homing st' i = False
     \<and> counter (dda (stepperAxis st' i)) = 0
     \<and> direction (dda (stepperAxis st' i)) = 1
     \<and> stepperDir (dda (stepperAxis st' i)) = False
     \<and> master (dda (stepperAxis st' i)) = False
     \<and> master_steps (dda (stepperAxis st' i)) = 0
     \<and> steps_completed (dda (stepperAxis st' i)) = 0
     \<and> steps (dda (stepperAxis st' i)) = 0"
  using assms by (simp add: stepperAxisInit_soft reset_dda_fields)

text \<open>
  On a machine in the middle of a move, X keeps 88 steps per mm, the limit 8800 and the
  position 1234, and loses its homing flag and its dda counter.
\<close>

theorem soft_reset_frame_witness:
  "X_AXIS < STEPPER_COUNT
   \<and> stepperAxisInit board_ex ee_ex False machine_busy \<noteq> None
   \<and> steps_per_mm (stepperAxis (the (stepperAxisInit board_ex ee_ex False machine_busy)) X_AXIS) = 88
   \<and> max_axis_steps_limit (stepperAxis (the (stepperAxisInit board_ex ee_ex False machine_busy)) X_AXIS) = 8800
   \<and> dda_position (the (stepperAxisInit board_ex ee_ex False machine_busy)) X_AXIS = 1234
   \<and> \<not> axis_homing (the (stepperAxisInit board_ex ee_ex False machine_busy)) X_AXIS
   \<and> counter (dda (stepperAxis (the (stepperAxisInit board_ex ee_ex False machine_busy)) X_AXIS)) = 0
   \<and> direction (dda (stepperAxis (the (stepperAxisInit board_ex ee_ex False machine_busy)) X_AXIS)) = 1"
proof -
  have lt: "X_AXIS < STEPPER_COUNT" by (simp add: axis_defs)
  from soft_reset_frame [OF lt, of board_ex ee_ex machine_busy]
  show ?thesis using lt by (auto simp: machine_busy_def axis_busy_def)
qed

text \<open>
  Claim C10. A soft reset also leaves \<open>hasHomed\<close>, \<open>hasDefinePosition\<close>,
  \<open>invert_axis\<close>, \<open>invert_endstop\<close> and \<open>min_interval\<close> of every axis and both
  enable masks as they were.
\<close>

theorem soft_reset_keeps_configuration:
  "\<exists>st'. stepperAxisInit b ee False st = Some st'
     \<and> hasHomed (stepperAxis st' i) = hasHomed (stepperAxis st i)
     \<and> hasDefinePosition (stepperAxis st' i) = hasDefinePosition (stepperAxis st i)
     \<and> invert_axis (stepperAxis st' i) = invert_axis (stepperAxis st i)
     \<and> invert_endstop (stepperAxis st' i) = invert_endstop (stepperAxis st i)
     \<and> min_interval (stepperAxis st' i) = min_interval (stepperAxis st i)
     \<and> axesEnabled st' = axesEnabled st
     \<and> axesHardwareEnabled st' = axesHardwareEnabled st"
  by (simp add: stepperAxisInit_soft reset_dda_fields)

text \<open>
  On a machine in the middle of a move, a soft reset leaves the flags and the interval
  of the Z axis and both enable masks as they were.
\<close>

theorem soft_reset_keeps_configuration_witness:
  "stepperAxisInit board_ex ee_ex False machine_busy \<noteq> None
   \<and> hasHomed (stepperAxis (the (stepperAxisInit board_ex ee_ex False machine_busy)) Z_AXIS)
   \<and> invert_endstop (stepperAxis (the (stepperAxisInit board_ex ee_ex False machine_busy)) Z_AXIS)
   \<and> min_interval (stepperAxis (the (stepperAxisInit board_ex ee_ex False machine_busy)) Z_AXIS) = 37
   \<and> axesEnabled (the (stepperAxisInit board_ex ee_ex False machine_busy)) = 31
   \<and> axesHardwareEnabled (the (stepperAxisInit board_ex ee_ex False machine_busy)) = 31"
  using soft_reset_keeps_configuration [of board_ex ee_ex machine_busy Z_AXIS]
  by (auto simp: machine_busy_def axis_busy_def)

section \<open>Both kinds of reset\<close>

text \<open>
  Claim C8. After an initialisation that runs to its end, hard or soft, every extruder
  step counter is zero.
\<close>

theorem e_steps_zeroed:
  assumes "stepperAxisInit b ee hard_reset st = Some st'" and "i < EXTRUDERS b"
  shows "e_steps st' i = 0"
proof (cases hard_reset)
  case True
  with assms(1) have "e_steps st' = (\<lambda>j. if j < EXTRUDERS b then 0 else e_steps st j)"
    by (intro stepperAxisInit_hard(3)) simp
  with assms(2) show ?thesis by simp
next
  case False
  with assms show ?thesis by (auto simp: stepperAxisInit_soft)
qed

text \<open>
  The second extruder counter, 3 before, is 0 after a hard and after a soft reset.
\<close>

theorem e_steps_zeroed_witness:
  "stepperAxisInit board_ex ee_ex True machine_busy \<noteq> None
   \<and> stepperAxisInit board_ex ee_ex False machine_busy \<noteq> None
   \<and> 1 < EXTRUDERS board_ex
   \<and> e_steps machine_busy 1 = 3
   \<and> e_steps (the (stepperAxisInit board_ex ee_ex True machine_busy)) 1 = 0
   \<and> e_steps (the (stepperAxisInit board_ex ee_ex False machine_busy)) 1 = 0"
proof -
  note t1 = stepperAxisInit_total [of board_ex ee_ex True machine_busy]
  note t2 = stepperAxisInit_total [of board_ex ee_ex False machine_busy]
  note d1 = the_init [OF t1]
  note d2 = the_init [OF t2]
  have lt: "1 < EXTRUDERS board_ex" by (simp add: board_ex_def)
  show ?thesis
    using e_steps_zeroed [OF d1 lt] e_steps_zeroed [OF d2 lt] t1 t2 lt
    by (simp add: machine_busy_def)
qed

text \<open>
  Claim C9. If an initialisation runs to its end, a second one with the same
  \<open>hard_reset\<close> and the same EEPROM runs to its end as well and leaves the axis records,
  \<open>dda_position\<close>, \<open>axis_homing\<close>, \<open>e_steps\<close> and both enable masks as the first one
  left them.
\<close>

theorem init_idempotent:
  assumes "stepperAxisInit b ee hard_reset st = Some st1"
  shows "\<exists>st2. stepperAxisInit b ee hard_reset st1 = Some st2
     \<and> stepperAxis st2 = stepperAxis st1
     \<and> dda_position st2 = dda_position st1
     \<and> axis_homing st2 = axis_homing st1
     \<and> e_steps st2 = e_steps st1
     \<and> axesEnabled st2 = axesEnabled st1
     \<and> axesHardwareEnabled st2 = axesHardwareEnabled st1"
proof (cases hard_reset)
  case False
  with assms have st1: "st1 = st\<lparr>axis_homing := (\<lambda>j. if j < STEPPER_COUNT then False else axis_homing st j),
              stepperAxis := (\<lambda>j. if j < STEPPER_COUNT
                                  then reset_dda j (stepperAxis st j) else stepperAxis st j),
              e_steps := (\<lambda>j. if j < EXTRUDERS b then 0 else e_steps st j)\<rparr>"
    by (simp add: stepperAxisInit_soft)
  from False have hr: "hard_reset = False" by simp
  let ?st2 = "st1\<lparr>axis_homing := (\<lambda>j. if j < STEPPER_COUNT then False else axis_homing st1 j),
              stepperAxis := (\<lambda>j. if j < STEPPER_COUNT
                                  then reset_dda j (stepperAxis st1 j) else stepperAxis st1 j),
              e_steps := (\<lambda>j. if j < EXTRUDERS b then 0 else e_steps st1 j)\<rparr>"
  show ?thesis
    unfolding hr
  proof (intro exI [of _ ?st2] conjI)
    show "stepperAxisInit b ee False st1 = Some ?st2" by (rule stepperAxisInit_soft)
    show "stepperAxis ?st2 = stepperAxis st1" by (simp add: st1 fun_eq_iff reset_dda_idem)
    show "dda_position ?st2 = dda_position st1" by simp
    show "axis_homing ?st2 = axis_homing st1" by (simp add: st1 fun_eq_iff)
    show "e_steps ?st2 = e_steps st1" by (simp add: st1 fun_eq_iff)
    show "axesEnabled ?st2 = axesEnabled st1" by simp
    show "axesHardwareEnabled ?st2 = axesHardwareEnabled st1" by simp
  qed
next
  case True
  then have hr: "hard_reset = True" by simp
  note first = assms [unfolded hr]
  note F = stepperAxisInit_hard [OF first]
  from stepperAxisInit_hard_total [of b ee st1] obtain st2 where
    second: "stepperAxisInit b ee True st1 = Some st2" by blast
  note S = stepperAxisInit_hard [OF second]
  have axes: "stepperAxis st2 j = stepperAxis st1 j" for j
  proof (cases "j < STEPPER_COUNT")
    case True
    show ?thesis
      unfolding stepperAxisInit_hard_axis [OF second True] stepperAxisInit_hard_axis [OF first True]
      by (rule hard_axis_final_indep [OF True])
  next
    case False
    with S(2) show ?thesis by simp
  qed
  have pos: "dda_position st2 j = dda_position st1 j" for j
  proof (cases "j < STEPPER_COUNT")
    case True
    with F(1) S(1) have "dda_position st1 j = 0" "dda_position st2 j = 0" by blast+
    then show ?thesis by simp
  next
    case False
    with S(2) show ?thesis by blast
  qed
  have hom: "axis_homing st2 j = axis_homing st1 j" for j
  proof (cases "j < STEPPER_COUNT")
    case True
    with F(1) S(1) have "axis_homing st1 j = False" "axis_homing st2 j = False" by blast+
    then show ?thesis by simp
  next
    case False
    with S(2) show ?thesis by blast
  qed
  have es: "e_steps st2 = e_steps st1"
    unfolding S(3) F(3) by (simp add: fun_eq_iff)
  show ?thesis
    unfolding hr
  proof (intro exI [of _ st2] conjI)
    show "stepperAxisInit b ee True st1 = Some st2" by (rule second)
    show "stepperAxis st2 = stepperAxis st1" by (rule ext) (rule axes)
    show "dda_position st2 = dda_position st1" by (rule ext) (rule pos)
    show "axis_homing st2 = axis_homing st1" by (rule ext) (rule hom)
    show "e_steps st2 = e_steps st1" by (rule es)
    show "axesEnabled st2 = axesEnabled st1" by (simp only: F(4) S(4))
    show "axesHardwareEnabled st2 = axesHardwareEnabled st1" by (simp only: F(5) S(5))
  qed
qed

text \<open>
  A second hard reset and a second soft reset of the busy machine return and leave the
  axis records as the first one left them.
\<close>

theorem init_idempotent_witness:
  "stepperAxisInit board_ex ee_ex True machine_busy \<noteq> None
   \<and> stepperAxisInit board_ex ee_ex True (the (stepperAxisInit board_ex ee_ex True machine_busy)) \<noteq> None
   \<and> stepperAxis (the (stepperAxisInit board_ex ee_ex True
        (the (stepperAxisInit board_ex ee_ex True machine_busy))))
      = stepperAxis (the (stepperAxisInit board_ex ee_ex True machine_busy))
   \<and> stepperAxisInit board_ex ee_ex False (the (stepperAxisInit board_ex ee_ex False machine_busy)) \<noteq> None
   \<and> stepperAxis (the (stepperAxisInit board_ex ee_ex False
        (the (stepperAxisInit board_ex ee_ex False machine_busy))))
      = stepperAxis (the (stepperAxisInit board_ex ee_ex False machine_busy))"
proof -
  note d1 = the_init [OF stepperAxisInit_total [of board_ex ee_ex True machine_busy]]
  note d2 = the_init [OF stepperAxisInit_total [of board_ex ee_ex False machine_busy]]
  from init_idempotent [OF d1] obtain st2 where
    h: "stepperAxisInit board_ex ee_ex True (the (stepperAxisInit board_ex ee_ex True machine_busy)) = Some st2"
      "stepperAxis st2 = stepperAxis (the (stepperAxisInit board_ex ee_ex True machine_busy))"
    by blast
  from init_idempotent [OF d2] obtain st3 where
    s: "stepperAxisInit board_ex ee_ex False (the (stepperAxisInit board_ex ee_ex False machine_busy)) = Some st3"
      "stepperAxis st3 = stepperAxis (the (stepperAxisInit board_ex ee_ex False machine_busy))"
    by blast
  show ?thesis
  proof (intro conjI)
    show "stepperAxisInit board_ex ee_ex True machine_busy \<noteq> None"
      by (rule stepperAxisInit_total)
    show "stepperAxisInit board_ex ee_ex True (the (stepperAxisInit board_ex ee_ex True machine_busy)) \<noteq> None"
      unfolding h(1) by simp
    show "stepperAxis (the (stepperAxisInit board_ex ee_ex True
        (the (stepperAxisInit board_ex ee_ex True machine_busy))))
      = stepperAxis (the (stepperAxisInit board_ex ee_ex True machine_busy))"
      unfolding h(1) option.sel by (rule h(2))
    show "stepperAxisInit board_ex ee_ex False (the (stepperAxisInit board_ex ee_ex False machine_busy)) \<noteq> None"
      unfolding s(1) by simp
    show "stepperAxis (the (stepperAxisInit board_ex ee_ex False
        (the (stepperAxisInit board_ex ee_ex False machine_busy))))
      = stepperAxis (the (stepperAxisInit board_ex ee_ex False machine_busy))"
      unfolding s(1) option.sel by (rule s(2))
  qed
qed

end
